theory Spec2Isabelle
  imports Main
begin

section \<open>Values of the JavaScript runtime\<close>

text \<open>
  The graph document (SSoT) is read with \<open>JSON.parse\<close> and written with
  \<open>JSON.stringify\<close>; attribute bags, parameter objects and rule values are JSON values.
  Numbers are integers in this development. The value \<open>undefined\<close> (also: an absent
  property) is \<open>None\<close> of \<open>json option\<close>. An object is the list of its own properties in
  insertion order. A \<open>Record<string, T>\<close> that the engines only index by key is a map.
  A lookup finds own properties, with one exception: the fresh index objects that
  \<open>rebuildIndexes\<close> fills are read before they are written, and there a key that names
  a property inherited from \<open>Object.prototype\<close> (such as \<open>constructor\<close> or \<open>toString\<close>)
  finds the inherited value. In the other lookups (the edge definitions of the schema,
  the index that the criteria engine reads, a parameter object) inherited properties
  are not modelled.
\<close>

datatype json =
    JNull
  | JBool bool
  | JNum int
  | JStr string
  | JArr "json list"
  | JObj "(string \<times> json) list"

text \<open>Decimal rendering of a number, as \<open>String(n)\<close> and template literals produce it.\<close>

definition digit_char :: "nat \<Rightarrow> char" where
  "digit_char n = ''0123456789'' ! n"

fun show_nat :: "nat \<Rightarrow> string" where
  "show_nat n = (if n < 10 then [digit_char n] else show_nat (n div 10) @ [digit_char (n mod 10)])"

declare show_nat.simps [simp del]

definition show_int :: "int \<Rightarrow> string" where
  "show_int i = (if i < 0 then CHR ''-'' # show_nat (nat (- i)) else show_nat (nat i))"

text \<open>\<open>Array.prototype.join\<close> on strings.\<close>

fun join :: "string \<Rightarrow> string list \<Rightarrow> string" where
  "join sep [] = []"
| "join sep [x] = x"
| "join sep (x # y # ys) = x @ sep @ join sep (y # ys)"

text \<open>
  \<open>String(v)\<close>, which is also the conversion of a template literal \<open>`${v}`\<close> and of a
  property key \<open>obj[v]\<close>. Inside an array, \<open>null\<close> renders as the empty string.
\<close>

fun js_string :: "json \<Rightarrow> string"
  and js_string_items :: "json list \<Rightarrow> string list" where
  "js_string JNull = ''null''"
| "js_string (JBool b) = (if b then ''true'' else ''false'')"
| "js_string (JNum i) = show_int i"
| "js_string (JStr s) = s"
| "js_string (JArr xs) = join '','' (js_string_items xs)"
| "js_string (JObj kvs) = ''[object Object]''"
| "js_string_items [] = []"
| "js_string_items (x # xs) = (if x = JNull then [] else js_string x) # js_string_items xs"

definition js_string_opt :: "json option \<Rightarrow> string" where
  "js_string_opt v = (case v of None \<Rightarrow> ''undefined'' | Some x \<Rightarrow> js_string x)"

text \<open>Truthiness, as \<open>if (v)\<close>, \<open>!v\<close> and \<open>v || d\<close> read it.\<close>

fun truthy :: "json option \<Rightarrow> bool" where
  "truthy None = False"
| "truthy (Some JNull) = False"
| "truthy (Some (JBool b)) = b"
| "truthy (Some (JNum i)) = (i \<noteq> 0)"
| "truthy (Some (JStr s)) = (s \<noteq> [])"
| "truthy (Some (JArr xs)) = True"
| "truthy (Some (JObj kvs)) = True"

text \<open>
  Strict equality \<open>a === b\<close>, which on JSON values is also the \<open>SameValueZero\<close> of
  \<open>Array.prototype.includes\<close>. Arrays and objects are compared by reference: a value of
  the graph and a value of a rule or of a parameter object are never the same object.
\<close>

fun strict_eq :: "json option \<Rightarrow> json option \<Rightarrow> bool" where
  "strict_eq None None = True"
| "strict_eq (Some JNull) (Some JNull) = True"
| "strict_eq (Some (JBool a)) (Some (JBool b)) = (a = b)"
| "strict_eq (Some (JNum a)) (Some (JNum b)) = (a = b)"
| "strict_eq (Some (JStr a)) (Some (JStr b)) = (a = b)"
| "strict_eq a b = False"

text \<open>\<open>s.split(c)\<close> for a one-character separator.\<close>

fun split_on :: "char \<Rightarrow> string \<Rightarrow> string list" where
  "split_on c [] = [[]]"
| "split_on c (x # xs) =
     (if x = c then [] # split_on c xs
      else (case split_on c xs of [] \<Rightarrow> [[x]] | w # ws \<Rightarrow> (x # w) # ws))"

text \<open>
  The optional member read \<open>acc?.[part]\<close>: \<open>undefined\<close> on \<open>undefined\<close> and \<open>null\<close>, an
  own property of an object, an element or the length of an array or a string.
\<close>

definition index_of_key :: "nat \<Rightarrow> string \<Rightarrow> nat option" where
  "index_of_key n part = find (\<lambda>i. show_nat i = part) [0..<n]"

fun js_get :: "json option \<Rightarrow> string \<Rightarrow> json option" where
  "js_get None part = None"
| "js_get (Some JNull) part = None"
| "js_get (Some (JBool b)) part = None"
| "js_get (Some (JNum i)) part = None"
| "js_get (Some (JStr s)) part =
     (if part = ''length'' then Some (JNum (int (length s)))
      else (case index_of_key (length s) part of None \<Rightarrow> None | Some i \<Rightarrow> Some (JStr [s ! i])))"
| "js_get (Some (JArr xs)) part =
     (if part = ''length'' then Some (JNum (int (length xs)))
      else (case index_of_key (length xs) part of None \<Rightarrow> None | Some i \<Rightarrow> Some (xs ! i)))"
| "js_get (Some (JObj kvs)) part = map_of kvs part"

text \<open>
  Library and runtime functions that are not code of the repository are parameters:
  \<open>applyPatch\<close> of fast-json-patch (\<open>Inl\<close> the message of the error it throws), the
  relational comparisons \<open>a < b\<close> and \<open>a <= b\<close>, \<open>new RegExp(p).test(s)\<close> (\<open>Inl\<close> the
  message of the \<open>SyntaxError\<close> of an invalid pattern) and the global replacement
  \<open>template.replace(/{name}/g, by)\<close>.
\<close>

record runtime =
  applyPatch :: "json option \<Rightarrow> json option \<Rightarrow> string + json"
  rel_lt :: "json option \<Rightarrow> json option \<Rightarrow> bool"
  rel_le :: "json option \<Rightarrow> json option \<Rightarrow> bool"
  regexp_test :: "string \<Rightarrow> string \<Rightarrow> string + bool"
  replace_all :: "string \<Rightarrow> string \<Rightarrow> string \<Rightarrow> string"

section \<open>The graph document\<close>

record metadata =
  md_created_at :: "string option"
  md_created_by :: "string option"
  md_confidence :: "int option"
  md_intent_id :: "string option"
  md_is_derived :: "bool option"

record node =
  node_id :: string
  node_kind :: string
  node_attrs :: "json option"
  node_metadata :: "metadata option"

record edge =
  edge_from :: string
  edge_kind :: string
  edge_to :: string
  edge_attrs :: "json option"
  edge_metadata :: "metadata option"

record ssot_meta =
  meta_version :: string
  meta_profile_version :: string
  meta_last_updated :: string
  meta_created_at :: string
  meta_collaboration_mode :: string
  meta_description :: "string option"

record ssot_indexes =
  by_kind :: "(string \<rightharpoonup> string list) option"
  incoming_edges :: "(string \<rightharpoonup> edge list) option"
  outgoing_edges :: "(string \<rightharpoonup> edge list) option"

record ssot =
  meta :: ssot_meta
  nodes :: "node list"
  edges :: "edge list"
  indexes :: "ssot_indexes option"

section \<open>Criteria engine\<close>

datatype severity = INFO | WARN | FAIL

datatype target_type = TNode | TEdge | TGraph | TAttribute

datatype kind_spec = Kind string | Kinds "string list"

record rule_target =
  tg_type :: target_type
  tg_kind :: "kind_spec option"

text \<open>
  The condition type and the operator are the strings of the catalog file: the switch
  statements of the engine have a default branch for any other string. Of a rule, and
  below of the schema, the intent catalog and the options, the records keep the fields
  that the engines read.
\<close>

record rule_condition =
  cd_type :: string
  cd_operator :: "string option"
  cd_value :: "json option"
  cd_path :: "string option"
  cd_edge_kind :: "string option"
  cd_min :: "int option"
  cd_max :: "int option"

record criteria_rule =
  rl_id :: string
  rl_title :: string
  rl_severity :: severity
  rl_category :: string
  rl_target :: rule_target
  rl_condition :: rule_condition
  rl_message :: string
  rl_why :: "string option"
  rl_fix_hint :: "string option"

datatype target_data = DNode node | DEdge edge

record target_node =
  tn_id :: string
  tn_kind :: string
  tn_data :: target_data

record rule_violation =
  v_target_ref :: "string option"
  v_target_kind :: "string option"
  v_evidence_anchors :: "string list"
  v_actual_value :: "json option"
  v_expected_value :: "json option"

record diagnostic_metadata =
  dm_rule_title :: string
  dm_category :: string
  dm_evaluated_at :: string
  dm_actual_value :: "json option"
  dm_expected_value :: "json option"

record diagnostic =
  d_rule_id :: string
  d_severity :: severity
  d_message :: string
  d_target_ref :: "string option"
  d_target_kind :: "string option"
  d_why :: "string option"
  d_fix_hint :: "string option"
  d_evidence_anchors :: "string list"
  d_metadata :: diagnostic_metadata

record evaluation_summary =
  sm_pass :: int
  sm_warn :: int
  sm_fail :: int
  sm_by_category :: "string \<rightharpoonup> int"
  sm_quality_score :: int

record criteria_evaluation =
  ev_ssot_version :: string
  ev_timestamp :: string
  ev_total_rules :: int
  ev_passed :: int
  ev_warned :: int
  ev_failed :: int
  ev_diagnostics :: "diagnostic list"
  ev_summary :: evaluation_summary

text \<open>What \<open>console.warn\<close> and \<open>console.error\<close> receive.\<close>

datatype log_entry =
    LogWarn string
  | LogError string string

text \<open>
  The readings of the system clock are inputs: \<open>clk_start\<close> is the timestamp of the
  evaluation, \<open>clk_diag r k\<close> the stamp of the \<open>k\<close>-th diagnostic of the rule with id \<open>r\<close>.
\<close>

record clock =
  clk_start :: string
  clk_diag :: "string \<Rightarrow> nat \<Rightarrow> string"

subsection \<open>Targets of a rule\<close>

definition kind_given :: "kind_spec option \<Rightarrow> bool" where
  "kind_given k = (case k of None \<Rightarrow> False | Some (Kind s) \<Rightarrow> s \<noteq> [] | Some (Kinds ks) \<Rightarrow> True)"

definition kinds_of :: "kind_spec option \<Rightarrow> string list" where
  "kinds_of k = (case k of None \<Rightarrow> [] | Some (Kind s) \<Rightarrow> [s] | Some (Kinds ks) \<Rightarrow> ks)"

definition edge_ref :: "edge \<Rightarrow> string" where
  "edge_ref e = edge_from e @ ''->'' @ edge_kind e @ ''->'' @ edge_to e"

definition getTargets :: "rule_target \<Rightarrow> ssot \<Rightarrow> target_node list" where
  "getTargets target s =
     (case tg_type target of
        TNode \<Rightarrow>
          map (\<lambda>n. \<lparr>tn_id = node_id n, tn_kind = node_kind n, tn_data = DNode n\<rparr>)
            (if kind_given (tg_kind target)
             then filter (\<lambda>n. node_kind n \<in> set (kinds_of (tg_kind target))) (nodes s)
             else nodes s)
      | TEdge \<Rightarrow>
          map (\<lambda>e. \<lparr>tn_id = edge_ref e, tn_kind = edge_kind e, tn_data = DEdge e\<rparr>)
            (if kind_given (tg_kind target)
             then filter (\<lambda>e. edge_kind e \<in> set (kinds_of (tg_kind target))) (edges s)
             else edges s)
      | TGraph \<Rightarrow> []
      | TAttribute \<Rightarrow> [])"

text \<open>\<open>Array.isArray(target.kind) ? target.kind.join('|') : target.kind\<close>\<close>

definition target_kind_text :: "kind_spec option \<Rightarrow> string option" where
  "target_kind_text k =
     (case k of None \<Rightarrow> None | Some (Kind s) \<Rightarrow> Some s | Some (Kinds ks) \<Rightarrow> Some (join ''|'' ks))"

subsection \<open>Attribute conditions\<close>

definition getNestedValue :: "json option \<Rightarrow> string \<Rightarrow> json option" where
  "getNestedValue obj path = foldl js_get obj (split_on CHR ''.'' path)"

definition is_member :: "json option \<Rightarrow> json list \<Rightarrow> bool" where
  "is_member actual xs = list_ex (\<lambda>x. strict_eq (Some x) actual) xs"

definition compareValues ::
  "runtime \<Rightarrow> json option \<Rightarrow> json option \<Rightarrow> string \<Rightarrow> string + bool" where
  "compareValues rt actual expected operator =
     (if operator = ''eq'' then Inr (strict_eq actual expected)
      else if operator = ''ne'' then Inr (\<not> strict_eq actual expected)
      else if operator = ''gt'' then Inr (rel_lt rt expected actual)
      else if operator = ''gte'' then Inr (rel_le rt expected actual)
      else if operator = ''lt'' then Inr (rel_lt rt actual expected)
      else if operator = ''lte'' then Inr (rel_le rt actual expected)
      else if operator = ''in'' then
        Inr (case expected of Some (JArr xs) \<Rightarrow> is_member actual xs | _ \<Rightarrow> False)
      else if operator = ''not_in'' then
        Inr (case expected of Some (JArr xs) \<Rightarrow> \<not> is_member actual xs | _ \<Rightarrow> False)
      else if operator = ''matches'' then
        (case expected of
           Some (JStr p) \<Rightarrow> regexp_test rt p (js_string_opt actual)
         | _ \<Rightarrow> Inr False)
      else if operator = ''not_matches'' then
        (case expected of
           Some (JStr p) \<Rightarrow>
             (case regexp_test rt p (js_string_opt actual) of
                Inl e \<Rightarrow> Inl e
              | Inr b \<Rightarrow> Inr (\<not> b))
         | _ \<Rightarrow> Inr False)
      else Inr False)"

definition target_attrs :: "target_node \<Rightarrow> json option" where
  "target_attrs t = (case tn_data t of DNode n \<Rightarrow> node_attrs n | DEdge e \<Rightarrow> edge_attrs e)"

text \<open>
  \<open>condition.path!\<close> is not checked: on a rule without \<open>path\<close> the call
  \<open>path.split('.')\<close> throws a \<open>TypeError\<close>.
\<close>

definition split_of_undefined :: string where
  "split_of_undefined = ''Cannot read properties of undefined (reading 'split')''"

definition checkAttributeCondition ::
  "runtime \<Rightarrow> target_node \<Rightarrow> rule_condition \<Rightarrow> string + rule_violation option" where
  "checkAttributeCondition rt t c =
     (case cd_path c of
        None \<Rightarrow> Inl split_of_undefined
      | Some attrPath \<Rightarrow>
          (let actualValue = getNestedValue (target_attrs t) attrPath;
               expectedValue = cd_value c;
               operator = (case cd_operator c of
                             None \<Rightarrow> ''eq''
                           | Some op \<Rightarrow> if op = [] then ''eq'' else op)
           in case compareValues rt actualValue expectedValue operator of
                Inl e \<Rightarrow> Inl e
              | Inr passed \<Rightarrow>
                  if \<not> passed
                  then Inr (Some \<lparr>v_target_ref = Some (tn_id t), v_target_kind = Some (tn_kind t),
                                  v_evidence_anchors = [tn_id t],
                                  v_actual_value = actualValue, v_expected_value = expectedValue\<rparr>)
                  else Inr None))"

subsection \<open>Connected conditions\<close>

text \<open>\<open>condition.min || 1\<close>: the number 0 is falsy.\<close>

definition min_or_1 :: "int option \<Rightarrow> int" where
  "min_or_1 m = (case m of None \<Rightarrow> 1 | Some k \<Rightarrow> if k = 0 then 1 else k)"

text \<open>\<open>ssot.indexes?.outgoing_edges?.[nodeId]?.filter((e) => e.kind === edgeKind) || []\<close>\<close>

definition outgoing_of_kind :: "ssot \<Rightarrow> string \<Rightarrow> string option \<Rightarrow> edge list" where
  "outgoing_of_kind s nodeId edgeKind =
     (case indexes s of
        None \<Rightarrow> []
      | Some ix \<Rightarrow>
          (case outgoing_edges ix of
             None \<Rightarrow> []
           | Some out \<Rightarrow>
               (case out nodeId of
                  None \<Rightarrow> []
                | Some es \<Rightarrow> filter (\<lambda>e. Some (edge_kind e) = edgeKind) es)))"

definition checkConnectedCondition ::
  "target_node \<Rightarrow> rule_condition \<Rightarrow> ssot \<Rightarrow> rule_violation option" where
  "checkConnectedCondition t c s =
     (let nodeId = tn_id t;
          edgeKind = cd_edge_kind c;
          minCount = min_or_1 (cd_min c);
          connectedEdges = outgoing_of_kind s nodeId edgeKind
      in if int (length connectedEdges) < minCount
         then Some \<lparr>v_target_ref = Some nodeId, v_target_kind = Some (tn_kind t),
                    v_evidence_anchors = [nodeId],
                    v_actual_value = Some (JNum (int (length connectedEdges))),
                    v_expected_value =
                      Some (JStr (''>='' @ show_int minCount @ '' '' @
                                  js_string_opt (map_option JStr edgeKind) @ '' edges''))\<rparr>
         else None)"

subsection \<open>Conditions of a rule\<close>

text \<open>
  A loop that pushes the violation of each target, when there is one. A throw at one
  target leaves the loop, and the violations collected so far are lost with it.
\<close>

fun collect_violations ::
  "('a \<Rightarrow> string + rule_violation option) \<Rightarrow> 'a list \<Rightarrow> string + rule_violation list" where
  "collect_violations f [] = Inr []"
| "collect_violations f (t # ts) =
     (case f t of
        Inl e \<Rightarrow> Inl e
      | Inr v \<Rightarrow>
          (case collect_violations f ts of
             Inl e \<Rightarrow> Inl e
           | Inr vs \<Rightarrow> Inr ((case v of None \<Rightarrow> [] | Some x \<Rightarrow> [x]) @ vs)))"

definition count_out_of_bounds :: "int \<Rightarrow> int option \<Rightarrow> int option \<Rightarrow> bool" where
  "count_out_of_bounds n mn mx =
     ((case mn of None \<Rightarrow> False | Some a \<Rightarrow> n < a) \<or> (case mx of None \<Rightarrow> False | Some b \<Rightarrow> b < n))"

definition count_expected :: "int option \<Rightarrow> int option \<Rightarrow> string" where
  "count_expected mn mx =
     (case mn of None \<Rightarrow> [] | Some a \<Rightarrow> ''>='' @ show_int a) @
     (case mx of None \<Rightarrow> [] | Some b \<Rightarrow> '' <='' @ show_int b)"

text \<open>The result is what the call returns or throws, with what it logged.\<close>

definition checkRuleCondition ::
  "runtime \<Rightarrow> criteria_rule \<Rightarrow> ssot \<Rightarrow> (string + rule_violation list) \<times> log_entry list" where
  "checkRuleCondition rt rule s =
     (let target = rl_target rule;
          condition = rl_condition rule;
          targets = getTargets target s
      in if cd_type condition = ''exists'' then
           (Inr (if length targets = 0
                 then [\<lparr>v_target_ref = None, v_target_kind = target_kind_text (tg_kind target),
                         v_evidence_anchors = [],
                         v_actual_value = Some (JNum 0),
                         v_expected_value = Some (JStr ''at least 1'')\<rparr>]
                 else []), [])
         else if cd_type condition = ''not_exists'' then
           (Inr (map (\<lambda>t. \<lparr>v_target_ref = Some (tn_id t), v_target_kind = Some (tn_kind t),
                            v_evidence_anchors = [tn_id t],
                            v_actual_value = Some (JStr ''exists''),
                            v_expected_value = Some (JStr ''should not exist'')\<rparr>) targets), [])
         else if cd_type condition = ''count'' then
           (Inr (if count_out_of_bounds (int (length targets)) (cd_min condition) (cd_max condition)
                 then [\<lparr>v_target_ref = None, v_target_kind = target_kind_text (tg_kind target),
                         v_evidence_anchors = map tn_id targets,
                         v_actual_value = Some (JNum (int (length targets))),
                         v_expected_value =
                           Some (JStr (count_expected (cd_min condition) (cd_max condition)))\<rparr>]
                 else []), [])
         else if cd_type condition = ''attribute'' then
           (collect_violations (\<lambda>t. checkAttributeCondition rt t condition) targets, [])
         else if cd_type condition = ''connected'' then
           (collect_violations (\<lambda>t. Inr (checkConnectedCondition t condition s)) targets, [])
         else (Inr [], [LogWarn (''Unknown condition type: '' @ cd_type condition)]))"

subsection \<open>Diagnostics and the aggregate result\<close>

definition formatMessage :: "runtime \<Rightarrow> string \<Rightarrow> rule_violation \<Rightarrow> string" where
  "formatMessage rt template violation =
     replace_all rt
       (replace_all rt
          (replace_all rt template ''{target_ref}''
             (case v_target_ref violation of
                None \<Rightarrow> ''unknown''
              | Some r \<Rightarrow> if r = [] then ''unknown'' else r))
          ''{actual_value}'' (js_string_opt (v_actual_value violation)))
       ''{expected_value}'' (js_string_opt (v_expected_value violation))"

definition make_diagnostic ::
  "runtime \<Rightarrow> clock \<Rightarrow> criteria_rule \<Rightarrow> nat \<times> rule_violation \<Rightarrow> diagnostic" where
  "make_diagnostic rt clk rule kv =
     \<lparr>d_rule_id = rl_id rule,
      d_severity = rl_severity rule,
      d_message = formatMessage rt (rl_message rule) (snd kv),
      d_target_ref = v_target_ref (snd kv),
      d_target_kind = v_target_kind (snd kv),
      d_why = rl_why rule,
      d_fix_hint = rl_fix_hint rule,
      d_evidence_anchors = v_evidence_anchors (snd kv),
      d_metadata = \<lparr>dm_rule_title = rl_title rule,
                    dm_category = rl_category rule,
                    dm_evaluated_at = clk_diag clk (rl_id rule) (fst kv),
                    dm_actual_value = v_actual_value (snd kv),
                    dm_expected_value = v_expected_value (snd kv)\<rparr>\<rparr>"

text \<open>
  The \<open>try\<close> block of \<open>evaluateRule\<close> holds the call of \<open>checkRuleCondition\<close> and the
  loop that turns each violation into a diagnostic. The loop does not throw (the
  message template is a string, the values are JSON values), so a throw comes from
  \<open>checkRuleCondition\<close>, before the first diagnostic: the \<open>catch\<close> block logs the error
  and the still empty list is returned.
\<close>

definition evaluateRule ::
  "runtime \<Rightarrow> clock \<Rightarrow> criteria_rule \<Rightarrow> ssot \<Rightarrow> diagnostic list \<times> log_entry list" where
  "evaluateRule rt clk rule s =
     (case checkRuleCondition rt rule s of
        (Inr violations, lg) \<Rightarrow>
          (map (make_diagnostic rt clk rule) (enumerate 0 violations), lg)
      | (Inl e, lg) \<Rightarrow>
          ([], lg @ [LogError (''Failed to evaluate rule '' @ rl_id rule @ '':'') e]))"

definition calculateQualityScore :: "int \<Rightarrow> int \<Rightarrow> int \<Rightarrow> int" where
  "calculateQualityScore total_rules failed warned =
     (if total_rules = 0 then 100
      else (let penalty = failed * 10 + warned * 2;
                score = 100 - penalty
            in max 0 (min 100 score)))"

definition count_category :: "(string \<rightharpoonup> int) \<Rightarrow> criteria_rule \<Rightarrow> (string \<rightharpoonup> int)" where
  "count_category m rule =
     m(rl_category rule \<mapsto>
         (case m (rl_category rule) of None \<Rightarrow> 0 | Some k \<Rightarrow> if k = 0 then 0 else k) + 1)"

definition evaluate ::
  "runtime \<Rightarrow> clock \<Rightarrow> criteria_rule list \<Rightarrow> ssot \<Rightarrow> criteria_evaluation \<times> log_entry list" where
  "evaluate rt clk rules s =
     (let timestamp = clk_start clk;
          results = map (\<lambda>rule. evaluateRule rt clk rule s) rules;
          diagnostics = concat (map fst results);
          passed = int (length rules) - int (length diagnostics);
          warned = int (length (filter (\<lambda>d. d_severity d = WARN) diagnostics));
          failed = int (length (filter (\<lambda>d. d_severity d = FAIL) diagnostics));
          qualityScore = calculateQualityScore (int (length rules)) failed warned;
          byCategory = foldl count_category Map.empty rules;
          summary = \<lparr>sm_pass = passed, sm_warn = warned, sm_fail = failed,
                     sm_by_category = byCategory, sm_quality_score = qualityScore\<rparr>
      in (\<lparr>ev_ssot_version = meta_version (meta s),
           ev_timestamp = timestamp,
           ev_total_rules = int (length rules),
           ev_passed = passed,
           ev_warned = warned,
           ev_failed = failed,
           ev_diagnostics = diagnostics,
           ev_summary = summary\<rparr>,
          concat (map snd results)))"

section \<open>Intent engine\<close>

subsection \<open>Schema, catalog, intents and results\<close>

record edge_definition =
  ed_from :: "string list"
  ed_to :: "string list"

record effective_schema =
  node_kinds :: "string list"
  edge_kinds :: "string list"
  edge_definitions :: "string \<rightharpoonup> edge_definition"

record parameter_definition =
  pd_type :: string
  pd_required :: bool

text \<open>
  The catalog is parsed from a YAML file: an entry written without \<open>parameters\<close> has
  none (\<open>None\<close>), whatever the interface declares.
\<close>

record intent_definition =
  idef_id :: string
  idef_parameters :: "(string \<times> parameter_definition) list option"

record intent_catalog =
  cat_intents :: "intent_definition list"

record engine_options =
  autoSave :: bool
  historyDir :: "string option"

record intent_metadata =
  im_intent_id :: string
  im_timestamp :: string
  im_user :: "string option"
  im_source :: "string option"
  im_collaboration_mode :: "string option"

text \<open>
  \<open>execute<T>(intent: Intent<T>)\<close> with \<open>Intent<T = any>\<close> takes any value as
  \<open>params\<close>: an object, another JSON value, \<open>null\<close>, or \<open>undefined\<close> (\<open>None\<close>).
\<close>

record intent =
  in_type :: string
  in_params :: "json option"
  in_metadata :: "intent_metadata option"

record validation_error =
  ve_code :: string
  ve_message :: string
  ve_field :: "string option"

datatype change_details =
    DetailKind string
  | DetailOperations "nat option"
  | DetailDelete "json option" nat

record intent_change =
  ch_type :: string
  ch_target :: string
  ch_details :: change_details

record rollback_info =
  rb_reason :: string
  rb_original_state_snapshot :: ssot

record intent_result =
  res_success :: bool
  res_intent_id :: string
  res_changes :: "intent_change list option"
  res_errors :: "validation_error list option"
  res_rollback :: "rollback_info option"

text \<open>The fields of an \<open>IntentEngine\<close> instance.\<close>

record engine =
  en_ssot :: ssot
  en_schema :: effective_schema
  en_catalog :: intent_catalog
  en_options :: engine_options

text \<open>
  What one call of \<open>execute\<close> reads from outside the engine: the identifiers that
  \<open>uuidv4()\<close> returns, the readings of the clock, and whether the file system calls of
  \<open>save\<close> and \<open>recordHistory\<close> throw (\<open>Some\<close> the message of the error).
\<close>

record environment =
  env_uuid :: string
  env_now :: string
  env_handler_uuid :: string
  env_handler_now :: string
  env_handler_now2 :: string
  env_save :: "string option"
  env_history :: "string option"

text \<open>A value between single quotes, as the messages of the engine show it.\<close>

definition quoted :: "string \<Rightarrow> string" where
  "quoted x = [CHR 0x27] @ x @ [CHR 0x27]"

subsection \<open>Validation\<close>

definition findNode :: "ssot \<Rightarrow> json option \<Rightarrow> node option" where
  "findNode s ident = find (\<lambda>n. Some (JStr (node_id n)) = ident) (nodes s)"

definition nodeExists :: "ssot \<Rightarrow> json option \<Rightarrow> bool" where
  "nodeExists s ident = list_ex (\<lambda>n. Some (JStr (node_id n)) = ident) (nodes s)"

text \<open>\<open>list.includes(value)\<close> for a list of strings.\<close>

definition includes_value :: "string list \<Rightarrow> json option \<Rightarrow> bool" where
  "includes_value xs v = list_ex (\<lambda>x. Some (JStr x) = v) xs"

text \<open>\<open>value === undefined || value === null\<close>\<close>

definition absent :: "json option \<Rightarrow> bool" where
  "absent v = (v = None \<or> v = Some JNull)"

text \<open>
  The message of the \<open>TypeError\<close> of a property read on \<open>undefined\<close> or \<open>null\<close>.
\<close>

definition read_of_nullish :: "string \<Rightarrow> string \<Rightarrow> string" where
  "read_of_nullish what name =
     ''Cannot read properties of '' @ what @ '' (reading '' @ quoted name @ '')''"

text \<open>
  \<open>(intent.params as any)[paramName]\<close>: the read throws on \<open>undefined\<close> and \<open>null\<close>; on
  an object it is the own property of that name.
\<close>

definition param_value :: "json option \<Rightarrow> string \<Rightarrow> string + json option" where
  "param_value params name =
     (case params of
        None \<Rightarrow> Inl (read_of_nullish ''undefined'' name)
      | Some JNull \<Rightarrow> Inl (read_of_nullish ''null'' name)
      | Some v \<Rightarrow> Inr (js_get (Some v) name))"

text \<open>The checks of the loop body on the value of one declared parameter.\<close>

definition value_errors ::
  "engine \<Rightarrow> string \<Rightarrow> parameter_definition \<Rightarrow> json option \<Rightarrow> validation_error list" where
  "value_errors st paramName paramDef v =
     (if pd_required paramDef \<and> absent v
      then [\<lparr>ve_code = ''MISSING_PARAMETER'',
              ve_message = ''Required parameter '' @ quoted paramName @ '' is missing'',
              ve_field = Some paramName\<rparr>]
      else []) @
     (if absent v then []
      else
        (if pd_type paramDef = ''NodeRef'' \<and> \<not> nodeExists (en_ssot st) v
         then [\<lparr>ve_code = ''INVALID_NODE_REF'',
                 ve_message = ''Node '' @ quoted (js_string_opt v) @ '' does not exist'',
                 ve_field = Some paramName\<rparr>]
         else []) @
        (if pd_type paramDef = ''NodeKind'' \<and> \<not> includes_value (node_kinds (en_schema st)) v
         then [\<lparr>ve_code = ''INVALID_NODE_KIND'',
                 ve_message = ''Node kind '' @ quoted (js_string_opt v) @ '' not in schema'',
                 ve_field = Some paramName\<rparr>]
         else []) @
        (if pd_type paramDef = ''EdgeKind'' \<and> \<not> includes_value (edge_kinds (en_schema st)) v
         then [\<lparr>ve_code = ''INVALID_EDGE_KIND'',
                 ve_message = ''Edge kind '' @ quoted (js_string_opt v) @ '' not in schema'',
                 ve_field = Some paramName\<rparr>]
         else []))"

text \<open>
  One pass of the loop over \<open>Object.entries(intentDef.parameters)\<close>: the errors it
  pushes, or the error it throws when it reads the value.
\<close>

definition param_errors ::
  "engine \<Rightarrow> json option \<Rightarrow> string \<times> parameter_definition \<Rightarrow> string + validation_error list" where
  "param_errors st params entry =
     (case param_value params (fst entry) of
        Inl e \<Rightarrow> Inl e
      | Inr v \<Rightarrow> Inr (value_errors st (fst entry) (snd entry) v))"

fun collect_errors ::
  "('a \<Rightarrow> string + validation_error list) \<Rightarrow> 'a list \<Rightarrow> string + validation_error list" where
  "collect_errors f [] = Inr []"
| "collect_errors f (x # xs) =
     (case f x of
        Inl e \<Rightarrow> Inl e
      | Inr es \<Rightarrow>
          (case collect_errors f xs of
             Inl e \<Rightarrow> Inl e
           | Inr rest \<Rightarrow> Inr (es @ rest)))"

text \<open>
  \<open>validateIntent\<close> returns the list of errors, or throws: \<open>Object.entries\<close> on a
  catalog entry without \<open>parameters\<close>, and the read of a parameter of \<open>params\<close> when
  \<open>params\<close> is \<open>undefined\<close> or \<open>null\<close>.
\<close>

definition validateIntent :: "engine \<Rightarrow> intent \<Rightarrow> string + validation_error list" where
  "validateIntent st i =
     (case find (\<lambda>d. idef_id d = in_type i) (cat_intents (en_catalog st)) of
        None \<Rightarrow>
          Inr [\<lparr>ve_code = ''UNKNOWN_INTENT'',
                ve_message = ''Intent type '' @ quoted (in_type i) @ '' not found in catalog'',
                ve_field = None\<rparr>]
      | Some intentDef \<Rightarrow>
          (case idef_parameters intentDef of
             None \<Rightarrow> Inl ''Cannot convert undefined or null to object''
           | Some entries \<Rightarrow> collect_errors (param_errors st (in_params i)) entries))"

subsection \<open>Mutation handlers\<close>

text \<open>
  A handler runs on the graph and either returns its change records or throws; the
  graph it leaves behind is the second component in both cases. A parameter that the
  handler's parameter interface declares \<open>string\<close> is read with \<open>string_param\<close>: the
  string itself (on a value of another type, which the interface excludes, its
  conversion to a string).
\<close>

type_synonym 'a outcome = "(string + 'a) \<times> ssot"

definition string_param :: "(string \<times> json) list \<Rightarrow> string \<Rightarrow> string" where
  "string_param params name = js_string_opt (map_of params name)"

definition user_metadata :: "string \<Rightarrow> string \<Rightarrow> metadata" where
  "user_metadata now intentId =
     \<lparr>md_created_at = Some now, md_created_by = Some ''user'', md_confidence = None,
      md_intent_id = Some intentId, md_is_derived = None\<rparr>"

definition addNode ::
  "environment \<Rightarrow> (string \<times> json) list \<Rightarrow> string \<Rightarrow> ssot \<Rightarrow> intent_change list outcome" where
  "addNode env params intentId s =
     (let nodeId = env_handler_uuid env;
          n = \<lparr>node_id = nodeId,
               node_kind = string_param params ''kind'',
               node_attrs = (if truthy (map_of params ''attrs'') then map_of params ''attrs''
                             else Some (JObj [])),
               node_metadata = Some (user_metadata (env_handler_now env) intentId)\<rparr>
      in (Inr [\<lparr>ch_type = ''node_added'', ch_target = nodeId,
                 ch_details = DetailKind (string_param params ''kind'')\<rparr>],
          s\<lparr>nodes := nodes s @ [n]\<rparr>))"

definition addEdge ::
  "effective_schema \<Rightarrow> environment \<Rightarrow> (string \<times> json) list \<Rightarrow> string \<Rightarrow> ssot
     \<Rightarrow> intent_change list outcome" where
  "addEdge sch env params intentId s =
     (case edge_definitions sch (string_param params ''edge_kind'') of
        None \<Rightarrow>
          (Inl (''Edge kind '' @ quoted (string_param params ''edge_kind'') @
                '' not found in schema''), s)
      | Some edgeDef \<Rightarrow>
          (case findNode s (map_of params ''from_ref'') of
             None \<Rightarrow> (Inl ''Source or target node not found'', s)
           | Some fromNode \<Rightarrow>
               (case findNode s (map_of params ''to_ref'') of
                  None \<Rightarrow> (Inl ''Source or target node not found'', s)
                | Some toNode \<Rightarrow>
                    if node_kind fromNode \<notin> set (ed_from edgeDef) then
                      (Inl (''Edge '' @ quoted (string_param params ''edge_kind'') @
                            '' cannot start from '' @ quoted (node_kind fromNode)), s)
                    else if node_kind toNode \<notin> set (ed_to edgeDef) then
                      (Inl (''Edge '' @ quoted (string_param params ''edge_kind'') @
                            '' cannot go to '' @ quoted (node_kind toNode)), s)
                    else
                      (let e = \<lparr>edge_from = string_param params ''from_ref'',
                                  edge_kind = string_param params ''edge_kind'',
                                  edge_to = string_param params ''to_ref'',
                                  edge_attrs = map_of params ''attrs'',
                                  edge_metadata =
                                    Some (user_metadata (env_handler_now env) intentId)\<rparr>
                       in (Inr [\<lparr>ch_type = ''edge_added'',
                                  ch_target = string_param params ''from_ref'' @ ''->'' @
                                              string_param params ''edge_kind'' @ ''->'' @
                                              string_param params ''to_ref'',
                                  ch_details = DetailKind (string_param params ''edge_kind'')\<rparr>],
                           s\<lparr>edges := edges s @ [e]\<rparr>)))))"

text \<open>The assignment \<open>node.attrs = ...\<close> to the node that \<open>findNode\<close> returned.\<close>

fun update_first :: "('a \<Rightarrow> bool) \<Rightarrow> ('a \<Rightarrow> 'a) \<Rightarrow> 'a list \<Rightarrow> 'a list" where
  "update_first P f [] = []"
| "update_first P f (x # xs) = (if P x then f x # xs else x # update_first P f xs)"

text \<open>
  \<open>params.patch.length\<close>: a \<open>TypeError\<close> on \<open>undefined\<close> and \<open>null\<close>, \<open>undefined\<close> on a
  value that has no length.
\<close>

definition patch_length :: "json option \<Rightarrow> string + nat option" where
  "patch_length p =
     (case p of
        None \<Rightarrow> Inl ''Cannot read properties of undefined (reading 'length')''
      | Some JNull \<Rightarrow> Inl ''Cannot read properties of null (reading 'length')''
      | Some (JArr ops) \<Rightarrow> Inr (Some (length ops))
      | Some (JStr t) \<Rightarrow> Inr (Some (length t))
      | Some _ \<Rightarrow> Inr None)"

definition updateNodeAttrs ::
  "runtime \<Rightarrow> (string \<times> json) list \<Rightarrow> string \<Rightarrow> ssot \<Rightarrow> intent_change list outcome" where
  "updateNodeAttrs rt params intentId s =
     (case findNode s (map_of params ''node_ref'') of
        None \<Rightarrow> (Inl (''Node '' @ quoted (string_param params ''node_ref'') @ '' not found''), s)
      | Some n \<Rightarrow>
          (case applyPatch rt (node_attrs n) (map_of params ''patch'') of
             Inl e \<Rightarrow> (Inl e, s)
           | Inr newDocument \<Rightarrow>
               (let s' = s\<lparr>nodes :=
                             update_first (\<lambda>m. Some (JStr (node_id m)) = map_of params ''node_ref'')
                               (\<lambda>m. m\<lparr>node_attrs := Some newDocument\<rparr>) (nodes s)\<rparr>
                in case patch_length (map_of params ''patch'') of
                     Inl e \<Rightarrow> (Inl e, s')
                   | Inr k \<Rightarrow>
                       (Inr [\<lparr>ch_type = ''node_updated'',
                               ch_target = string_param params ''node_ref'',
                               ch_details = DetailOperations k\<rparr>], s'))))"

text \<open>\<open>findIndex\<close>: the first position that satisfies the predicate (\<open>None\<close> for -1).\<close>

fun find_index :: "('a \<Rightarrow> bool) \<Rightarrow> 'a list \<Rightarrow> nat option" where
  "find_index P [] = None"
| "find_index P (x # xs) =
     (if P x then Some 0 else (case find_index P xs of None \<Rightarrow> None | Some k \<Rightarrow> Some (Suc k)))"

text \<open>\<open>e.from === params.node_ref || e.to === params.node_ref\<close>\<close>

definition touches :: "json option \<Rightarrow> edge \<Rightarrow> bool" where
  "touches ref e = (Some (JStr (edge_from e)) = ref \<or> Some (JStr (edge_to e)) = ref)"

definition deleteNode ::
  "(string \<times> json) list \<Rightarrow> string \<Rightarrow> ssot \<Rightarrow> intent_change list outcome" where
  "deleteNode params intentId s =
     (case find_index (\<lambda>n. Some (JStr (node_id n)) = map_of params ''node_ref'') (nodes s) of
        None \<Rightarrow> (Inl (''Node '' @ quoted (string_param params ''node_ref'') @ '' not found''), s)
      | Some nodeIndex \<Rightarrow>
          (let connectedEdges = filter (touches (map_of params ''node_ref'')) (edges s)
           in if length connectedEdges > 0 \<and> \<not> truthy (map_of params ''cascade'') then
                (Inl (''Node '' @ quoted (string_param params ''node_ref'') @ '' has '' @
                      show_nat (length connectedEdges) @
                      '' connected edges. Use cascade=true to delete them.''), s)
              else
                (let s1 = s\<lparr>nodes := take nodeIndex (nodes s) @ drop (Suc nodeIndex) (nodes s)\<rparr>;
                     s2 = (if truthy (map_of params ''cascade'')
                           then s1\<lparr>edges :=
                                     filter (\<lambda>e. \<not> touches (map_of params ''node_ref'') e) (edges s1)\<rparr>
                           else s1)
                 in (Inr [\<lparr>ch_type = ''node_deleted'',
                            ch_target = string_param params ''node_ref'',
                            ch_details = DetailDelete (map_of params ''cascade'')
                                           (length connectedEdges)\<rparr>], s2))))"

definition addNeed ::
  "environment \<Rightarrow> (string \<times> json) list \<Rightarrow> string \<Rightarrow> ssot \<Rightarrow> intent_change list outcome" where
  "addNeed env params intentId s =
     (let needId = env_handler_uuid env;
          need = \<lparr>node_id = needId, node_kind = ''Need'',
                  node_attrs = map_of params ''attrs'',
                  node_metadata = Some (user_metadata (env_handler_now env) intentId)\<rparr>;
          s1 = s\<lparr>nodes := nodes s @ [need]\<rparr>;
          changes = [\<lparr>ch_type = ''node_added'', ch_target = needId,
                      ch_details = DetailKind ''Need''\<rparr>]
      in if truthy (map_of params ''expressed_by'') then
           (let e = \<lparr>edge_from = string_param params ''expressed_by'',
                      edge_kind = ''expresses'',
                      edge_to = needId,
                      edge_attrs = None,
                      edge_metadata = Some (user_metadata (env_handler_now2 env) intentId)\<rparr>
            in (Inr (changes @
                     [\<lparr>ch_type = ''edge_added'',
                       ch_target = string_param params ''expressed_by'' @ ''->expresses->'' @ needId,
                       ch_details = DetailKind ''expresses''\<rparr>]),
                s1\<lparr>edges := edges s1 @ [e]\<rparr>))
         else (Inr changes, s1))"

definition found_need :: "node option \<Rightarrow> bool" where
  "found_need n = (case n of None \<Rightarrow> False | Some m \<Rightarrow> node_kind m = ''Need'')"

definition addRequirementRefinement ::
  "environment \<Rightarrow> (string \<times> json) list \<Rightarrow> string \<Rightarrow> ssot \<Rightarrow> intent_change list outcome" where
  "addRequirementRefinement env params intentId s =
     (if \<not> found_need (findNode s (map_of params ''need_ref'')) then
        (Inl (''Need '' @ quoted (string_param params ''need_ref'') @ '' not found''), s)
      else
        (let reqId = env_handler_uuid env;
             requirement = \<lparr>node_id = reqId, node_kind = ''Requirement'',
                            node_attrs = map_of params ''requirement_attrs'',
                            node_metadata = Some (user_metadata (env_handler_now env) intentId)\<rparr>;
             s1 = s\<lparr>nodes := nodes s @ [requirement]\<rparr>;
             e = \<lparr>edge_from = string_param params ''need_ref'',
                  edge_kind = ''refinesTo'',
                  edge_to = reqId,
                  edge_attrs = None,
                  edge_metadata = Some (user_metadata (env_handler_now2 env) intentId)\<rparr>
         in (Inr [\<lparr>ch_type = ''node_added'', ch_target = reqId,
                    ch_details = DetailKind ''Requirement''\<rparr>,
                  \<lparr>ch_type = ''edge_added'',
                    ch_target = string_param params ''need_ref'' @ ''->refinesTo->'' @ reqId,
                    ch_details = DetailKind ''refinesTo''\<rparr>],
             s1\<lparr>edges := edges s1 @ [e]\<rparr>)))"

subsection \<open>Dispatch, indexes and \<open>execute\<close>\<close>

text \<open>
  The argument \<open>intent.metadata!.intent_id\<close> of a handler call; \<open>execute\<close> has set the
  metadata before.
\<close>

definition with_intent_id ::
  "intent \<Rightarrow> ssot \<Rightarrow> (string \<Rightarrow> ssot \<Rightarrow> intent_change list outcome) \<Rightarrow> intent_change list outcome" where
  "with_intent_id i s handler =
     (case in_metadata i of
        None \<Rightarrow> (Inl ''Cannot read properties of undefined (reading 'intent_id')'', s)
      | Some m \<Rightarrow> handler (im_intent_id m) s)"

text \<open>
  The cast \<open>intent.params as XParams\<close> is not checked. Every handler reads a property
  of \<open>params\<close> before it changes the graph (\<open>first\<close> is the name of that property), and
  the read throws on \<open>undefined\<close> and \<open>null\<close>. On an object the handler reads its own
  properties; another JSON value has none of the properties that a handler reads.
\<close>

definition with_params ::
  "json option \<Rightarrow> string \<Rightarrow> ((string \<times> json) list \<Rightarrow> string \<Rightarrow> ssot \<Rightarrow> intent_change list outcome)
     \<Rightarrow> string \<Rightarrow> ssot \<Rightarrow> intent_change list outcome" where
  "with_params params first handler intentId s =
     (case params of
        None \<Rightarrow> (Inl (read_of_nullish ''undefined'' first), s)
      | Some JNull \<Rightarrow> (Inl (read_of_nullish ''null'' first), s)
      | Some (JObj properties) \<Rightarrow> handler properties intentId s
      | Some v \<Rightarrow> handler [] intentId s)"

definition executeIntentType ::
  "runtime \<Rightarrow> environment \<Rightarrow> effective_schema \<Rightarrow> intent \<Rightarrow> ssot \<Rightarrow> intent_change list outcome" where
  "executeIntentType rt env sch i s =
     (if in_type i = ''I.AddNode'' then
        with_intent_id i s (with_params (in_params i) ''kind'' (addNode env))
      else if in_type i = ''I.AddEdge'' then
        with_intent_id i s (with_params (in_params i) ''edge_kind'' (addEdge sch env))
      else if in_type i = ''I.UpdateNodeAttrs'' then
        with_intent_id i s (with_params (in_params i) ''node_ref'' (updateNodeAttrs rt))
      else if in_type i = ''I.DeleteNode'' then
        with_intent_id i s (with_params (in_params i) ''node_ref'' deleteNode)
      else if in_type i = ''I.AddNeed'' then
        with_intent_id i s (with_params (in_params i) ''attrs'' (addNeed env))
      else if in_type i = ''I.AddRequirementRefinement'' then
        with_intent_id i s (with_params (in_params i) ''need_ref'' (addRequirementRefinement env))
      else (Inl (''Intent type '' @ quoted (in_type i) @ '' not yet implemented''), s))"

definition push_at :: "('k \<rightharpoonup> 'v list) \<Rightarrow> 'k \<Rightarrow> 'v \<Rightarrow> ('k \<rightharpoonup> 'v list)" where
  "push_at m k v = m(k \<mapsto> (case m k of None \<Rightarrow> [] | Some vs \<Rightarrow> vs) @ [v])"

text \<open>The three indexes of a list of nodes and a list of edges.\<close>

definition build_indexes :: "node list \<Rightarrow> edge list \<Rightarrow> ssot_indexes" where
  "build_indexes ns es =
     \<lparr>by_kind = Some (foldl (\<lambda>m n. push_at m (node_kind n) (node_id n)) Map.empty ns),
      incoming_edges = Some (foldl (\<lambda>m e. push_at m (edge_to e) e) Map.empty es),
      outgoing_edges = Some (foldl (\<lambda>m e. push_at m (edge_from e) e) Map.empty es)\<rparr>"

text \<open>
  The index objects start as \<open>{}\<close>, and \<open>if (!byKind[node.kind])\<close> reads them before
  anything is stored. For a key that \<open>Object.prototype\<close> has, the read finds the inherited
  value, which is truthy and has no \<open>push\<close>: the call \<open>byKind[node.kind].push(node.id)\<close>
  throws a \<open>TypeError\<close>. The same holds for \<open>outgoingEdges[edge.from]\<close> and
  \<open>incomingEdges[edge.to]\<close>.
\<close>

definition inherited_keys :: "string list" where
  "inherited_keys =
     [''constructor'', ''__defineGetter__'', ''__defineSetter__'', ''hasOwnProperty'',
      ''__lookupGetter__'', ''__lookupSetter__'', ''isPrototypeOf'', ''propertyIsEnumerable'',
      ''toString'', ''valueOf'', ''__proto__'', ''toLocaleString'']"

definition inherited :: "string \<Rightarrow> bool" where
  "inherited k = (k \<in> set inherited_keys)"

text \<open>The first throw of the loop over the edges, when there is one.\<close>

fun edge_index_error :: "edge list \<Rightarrow> string option" where
  "edge_index_error [] = None"
| "edge_index_error (e # es) =
     (if inherited (edge_from e) then Some ''outgoingEdges[edge.from].push is not a function''
      else if inherited (edge_to e) then Some ''incomingEdges[edge.to].push is not a function''
      else edge_index_error es)"

text \<open>
  \<open>rebuildIndexes\<close> assigns \<open>this.ssot.indexes\<close> in its last statement: when a loop
  throws, the graph keeps the indexes it had.
\<close>

definition rebuildIndexes :: "ssot \<Rightarrow> string + ssot" where
  "rebuildIndexes s =
     (if list_ex (\<lambda>n. inherited (node_kind n)) (nodes s) then
        Inl ''byKind[node.kind].push is not a function''
      else
        (case edge_index_error (edges s) of
           Some e \<Rightarrow> Inl e
         | None \<Rightarrow> Inr (s\<lparr>indexes := Some (build_indexes (nodes s) (edges s))\<rparr>)))"

text \<open>\<open>if (this.options.historyDir)\<close>: the empty string is falsy.\<close>

definition history_enabled :: "engine_options \<Rightarrow> bool" where
  "history_enabled opts = (case historyDir opts of None \<Rightarrow> False | Some d \<Rightarrow> d \<noteq> [])"

text \<open>
  The body of the \<open>try\<close> block of \<open>execute\<close>: the handler, the stamp on
  \<open>meta.last_updated\<close>, the indexes, \<open>save\<close> and \<open>recordHistory\<close>. The engine in the
  result is the engine at the moment the block returns or throws.
\<close>

definition try_block ::
  "runtime \<Rightarrow> environment \<Rightarrow> engine \<Rightarrow> intent \<Rightarrow> (string + intent_change list) \<times> engine" where
  "try_block rt env st i =
     (case executeIntentType rt env (en_schema st) i (en_ssot st) of
        (Inl e, s1) \<Rightarrow> (Inl e, st\<lparr>en_ssot := s1\<rparr>)
      | (Inr changes, s1) \<Rightarrow>
          (let s2 = s1\<lparr>meta := (meta s1)\<lparr>meta_last_updated := env_now env\<rparr>\<rparr>
           in case rebuildIndexes s2 of
                Inl e \<Rightarrow> (Inl e, st\<lparr>en_ssot := s2\<rparr>)
              | Inr s3 \<Rightarrow>
                  (case (if autoSave (en_options st) then env_save env else None) of
                     Some e \<Rightarrow> (Inl e, st\<lparr>en_ssot := s3\<rparr>)
                   | None \<Rightarrow>
                       (case (if history_enabled (en_options st) then env_history env
                              else None) of
                          Some e \<Rightarrow> (Inl e, st\<lparr>en_ssot := s3\<rparr>)
                        | None \<Rightarrow> (Inr changes, st\<lparr>en_ssot := s3\<rparr>)))))"

definition with_metadata :: "environment \<Rightarrow> engine \<Rightarrow> intent \<Rightarrow> intent" where
  "with_metadata env st i =
     (case in_metadata i of
        None \<Rightarrow>
          i\<lparr>in_metadata := Some
              \<lparr>im_intent_id = env_uuid env,
               im_timestamp = env_now env,
               im_user = None,
               im_source = Some ''user'',
               im_collaboration_mode = Some (meta_collaboration_mode (meta (en_ssot st)))\<rparr>\<rparr>
      | Some m \<Rightarrow> i)"

text \<open>
  \<open>execute\<close> returns the result and leaves the engine in the second component.
  \<open>validateIntent\<close> is called before the \<open>try\<close> block: when it throws, the promise that
  \<open>execute\<close> returns is rejected with that error (\<open>Inl\<close>). The
  snapshot \<open>JSON.parse(JSON.stringify(this.ssot))\<close> is a copy of the document: on JSON
  values the same value (an optional field that is absent and one that holds
  \<open>undefined\<close> are both \<open>None\<close>, as a property read and \<open>JSON.stringify\<close> treat them). The
  files that \<open>save\<close> and \<open>recordHistory\<close> write are not part of the engine.
\<close>

definition execute ::
  "runtime \<Rightarrow> environment \<Rightarrow> engine \<Rightarrow> intent \<Rightarrow> (string + intent_result) \<times> engine" where
  "execute rt env st i0 =
     (let intentId = env_uuid env;
          i = with_metadata env st i0
      in case validateIntent st i of
           Inl thrown \<Rightarrow> (Inl thrown, st)
         | Inr validationErrors \<Rightarrow>
             if length validationErrors > 0 then
               (Inr \<lparr>res_success = False, res_intent_id = intentId, res_changes = None,
                     res_errors = Some validationErrors, res_rollback = None\<rparr>, st)
             else
               (let snapshot = en_ssot st
                in case try_block rt env st i of
                     (Inr changes, st') \<Rightarrow>
                       (Inr \<lparr>res_success = True, res_intent_id = intentId,
                             res_changes = Some changes, res_errors = None,
                             res_rollback = None\<rparr>, st')
                   | (Inl e, st') \<Rightarrow>
                       (Inr \<lparr>res_success = False, res_intent_id = intentId, res_changes = None,
                             res_errors = Some [\<lparr>ve_code = ''EXECUTION_FAILED'',
                                                 ve_message = e, ve_field = None\<rparr>],
                             res_rollback = Some \<lparr>rb_reason = ''Execution error'',
                                                   rb_original_state_snapshot = snapshot\<rparr>\<rparr>,
                        st'\<lparr>en_ssot := snapshot\<rparr>)))"

section \<open>Notions of the specification and sample data\<close>

text \<open>The condition types that \<open>checkRuleCondition\<close> has a case for.\<close>

definition recognized :: "string \<Rightarrow> bool" where
  "recognized t =
     (t = ''exists'' \<or> t = ''not_exists'' \<or> t = ''count'' \<or> t = ''attribute'' \<or> t = ''connected'')"

text \<open>A runtime, a clock and a small graph: an actor, a need it expresses, and a requirement
  that refines the need.\<close>

definition ex_runtime :: runtime where
  "ex_runtime =
     \<lparr>applyPatch = (\<lambda>doc patch. Inl ''Patch sequence must be an array''),
      rel_lt = (\<lambda>a b. False),
      rel_le = (\<lambda>a b. strict_eq a b),
      regexp_test = (\<lambda>p t. if p = ''(''
                             then Inl ''Invalid regular expression: /(/: Unterminated group''
                             else Inr (p = t)),
      replace_all = (\<lambda>template name by. template)\<rparr>"

definition ex_clock :: clock where
  "ex_clock = \<lparr>clk_start = ''2025-01-01T00:00:00.000Z'',
               clk_diag = (\<lambda>r k. ''2025-01-01T00:00:00.001Z'')\<rparr>"

definition ex_meta :: ssot_meta where
  "ex_meta = \<lparr>meta_version = ''2.0.0'', meta_profile_version = ''1.0.0'',
              meta_last_updated = ''2024-12-31T00:00:00.000Z'',
              meta_created_at = ''2024-12-01T00:00:00.000Z'',
              meta_collaboration_mode = ''copilot'', meta_description = None\<rparr>"

definition ex_node :: "string \<Rightarrow> string \<Rightarrow> node" where
  "ex_node ident k =
     \<lparr>node_id = ident, node_kind = k, node_attrs = Some (JObj []), node_metadata = None\<rparr>"

definition ex_edge :: "string \<Rightarrow> string \<Rightarrow> string \<Rightarrow> edge" where
  "ex_edge a k b =
     \<lparr>edge_from = a, edge_kind = k, edge_to = b, edge_attrs = None, edge_metadata = None\<rparr>"

definition ex_nodes :: "node list" where
  "ex_nodes = [ex_node ''a1'' ''Stakeholder'', ex_node ''n1'' ''Need'',
               ex_node ''r1'' ''Requirement'']"

definition ex_edges :: "edge list" where
  "ex_edges = [ex_edge ''a1'' ''expresses'' ''n1'', ex_edge ''n1'' ''refinesTo'' ''r1'']"

definition ex_graph :: ssot where
  "ex_graph =
     \<lparr>meta = ex_meta, nodes = ex_nodes, edges = ex_edges,
      indexes = Some (build_indexes ex_nodes ex_edges)\<rparr>"

definition ex_rule ::
  "string \<Rightarrow> severity \<Rightarrow> target_type \<Rightarrow> kind_spec option \<Rightarrow> string \<Rightarrow> criteria_rule" where
  "ex_rule ident sev tt k ct =
     \<lparr>rl_id = ident, rl_title = ident, rl_severity = sev, rl_category = ''traceability'',
      rl_target = \<lparr>tg_type = tt, tg_kind = k\<rparr>,
      rl_condition = \<lparr>cd_type = ct, cd_operator = None, cd_value = None, cd_path = None,
                       cd_edge_kind = None, cd_min = None, cd_max = None\<rparr>,
      rl_message = ''{target_ref}: {actual_value} / {expected_value}'',
      rl_why = None, rl_fix_hint = None\<rparr>"

definition ex_no_nodes :: criteria_rule where
  "ex_no_nodes = ex_rule ''R1'' WARN TNode None ''not_exists''"

definition ex_need_exists :: criteria_rule where
  "ex_need_exists = ex_rule ''R2'' FAIL TNode (Some (Kind ''Need'')) ''exists''"

definition ex_no_path :: criteria_rule where
  "ex_no_path = ex_rule ''R3'' FAIL TNode None ''attribute''"

definition ex_custom :: criteria_rule where
  "ex_custom = ex_rule ''R4'' INFO TNode None ''custom''"

definition ex_min_zero :: criteria_rule where
  "ex_min_zero =
     (ex_rule ''R5'' WARN TNode (Some (Kind ''Requirement'')) ''connected'')
       \<lparr>rl_condition :=
          \<lparr>cd_type = ''connected'', cd_operator = None, cd_value = None, cd_path = None,
           cd_edge_kind = Some ''verifiedBy'', cd_min = Some 0, cd_max = None\<rparr>\<rparr>"

definition ex_graph_rule :: "string \<Rightarrow> criteria_rule" where
  "ex_graph_rule ct =
     (ex_rule ''R6'' FAIL TGraph None ct)
       \<lparr>rl_condition :=
          \<lparr>cd_type = ct, cd_operator = None, cd_value = None, cd_path = None,
           cd_edge_kind = None, cd_min = Some 1, cd_max = None\<rparr>\<rparr>"

text \<open>Ten rules: one FAIL diagnostic, two WARN diagnostics, seven rules without one.\<close>

definition ex_ten_rules :: "criteria_rule list" where
  "ex_ten_rules =
     [ex_rule ''Q1'' FAIL TGraph None ''exists'',
      ex_rule ''Q2'' WARN TNode (Some (Kind ''Need'')) ''not_exists'',
      ex_rule ''Q3'' WARN TNode (Some (Kind ''Requirement'')) ''not_exists''] @
     replicate 7 ex_need_exists"

text \<open>Notions of the specification of the intent engine.\<close>

definition has_handler :: "string \<Rightarrow> bool" where
  "has_handler t =
     (t = ''I.AddNode'' \<or> t = ''I.AddEdge'' \<or> t = ''I.UpdateNodeAttrs'' \<or> t = ''I.DeleteNode'' \<or>
      t = ''I.AddNeed'' \<or> t = ''I.AddRequirementRefinement'')"

definition in_catalog :: "engine \<Rightarrow> string \<Rightarrow> bool" where
  "in_catalog st t = list_ex (\<lambda>d. idef_id d = t) (cat_intents (en_catalog st))"

definition execution_failed :: "environment \<Rightarrow> engine \<Rightarrow> string \<Rightarrow> intent_result" where
  "execution_failed env st msg =
     \<lparr>res_success = False, res_intent_id = env_uuid env, res_changes = None,
      res_errors = Some [\<lparr>ve_code = ''EXECUTION_FAILED'', ve_message = msg, ve_field = None\<rparr>],
      res_rollback = Some \<lparr>rb_reason = ''Execution error'',
                            rb_original_state_snapshot = en_ssot st\<rparr>\<rparr>"

definition validation_failed :: "environment \<Rightarrow> validation_error list \<Rightarrow> intent_result" where
  "validation_failed env errs =
     \<lparr>res_success = False, res_intent_id = env_uuid env, res_changes = None,
      res_errors = Some errs, res_rollback = None\<rparr>"

definition unknown_intent :: "string \<Rightarrow> validation_error" where
  "unknown_intent t =
     \<lparr>ve_code = ''UNKNOWN_INTENT'',
      ve_message = ''Intent type '' @ quoted t @ '' not found in catalog'',
      ve_field = None\<rparr>"

definition missing_parameter :: "string \<Rightarrow> validation_error" where
  "missing_parameter p =
     \<lparr>ve_code = ''MISSING_PARAMETER'',
      ve_message = ''Required parameter '' @ quoted p @ '' is missing'',
      ve_field = Some p\<rparr>"

definition invalid_node_ref :: "string \<Rightarrow> json option \<Rightarrow> validation_error" where
  "invalid_node_ref p v =
     \<lparr>ve_code = ''INVALID_NODE_REF'',
      ve_message = ''Node '' @ quoted (js_string_opt v) @ '' does not exist'',
      ve_field = Some p\<rparr>"

definition invalid_node_kind :: "string \<Rightarrow> json option \<Rightarrow> validation_error" where
  "invalid_node_kind p v =
     \<lparr>ve_code = ''INVALID_NODE_KIND'',
      ve_message = ''Node kind '' @ quoted (js_string_opt v) @ '' not in schema'',
      ve_field = Some p\<rparr>"

definition invalid_edge_kind :: "string \<Rightarrow> json option \<Rightarrow> validation_error" where
  "invalid_edge_kind p v =
     \<lparr>ve_code = ''INVALID_EDGE_KIND'',
      ve_message = ''Edge kind '' @ quoted (js_string_opt v) @ '' not in schema'',
      ve_field = Some p\<rparr>"

text \<open>
  The errors that apply to the declared parameter \<open>p\<close>, whose value in the parameter
  object is \<open>js_get params p\<close>.
\<close>

definition applicable ::
  "engine \<Rightarrow> json option \<Rightarrow> string \<Rightarrow> parameter_definition \<Rightarrow> validation_error \<Rightarrow> bool" where
  "applicable st params p pd e =
     ((e = missing_parameter p \<and> pd_required pd \<and> absent (js_get params p)) \<or>
      (e = invalid_node_ref p (js_get params p) \<and> pd_type pd = ''NodeRef'' \<and>
         \<not> absent (js_get params p) \<and> \<not> nodeExists (en_ssot st) (js_get params p)) \<or>
      (e = invalid_node_kind p (js_get params p) \<and> pd_type pd = ''NodeKind'' \<and>
         \<not> absent (js_get params p) \<and>
         \<not> includes_value (node_kinds (en_schema st)) (js_get params p)) \<or>
      (e = invalid_edge_kind p (js_get params p) \<and> pd_type pd = ''EdgeKind'' \<and>
         \<not> absent (js_get params p) \<and>
         \<not> includes_value (edge_kinds (en_schema st)) (js_get params p)))"

definition declared_parameters :: "intent_definition \<Rightarrow> (string \<times> parameter_definition) list" where
  "declared_parameters d = (case idef_parameters d of None \<Rightarrow> [] | Some entries \<Rightarrow> entries)"

definition applicable_errors :: "engine \<Rightarrow> intent \<Rightarrow> validation_error set" where
  "applicable_errors st i =
     (case find (\<lambda>d. idef_id d = in_type i) (cat_intents (en_catalog st)) of
        None \<Rightarrow> {unknown_intent (in_type i)}
      | Some d \<Rightarrow>
          {e. \<exists>p pd. (p, pd) \<in> set (declared_parameters d) \<and> applicable st (in_params i) p pd e})"

definition edge_permitted :: "effective_schema \<Rightarrow> ssot \<Rightarrow> (string \<times> json) list \<Rightarrow> bool" where
  "edge_permitted sch s params =
     (case edge_definitions sch (string_param params ''edge_kind'') of
        None \<Rightarrow> False
      | Some d \<Rightarrow>
          (case findNode s (map_of params ''from_ref'') of
             None \<Rightarrow> False
           | Some f \<Rightarrow>
               (case findNode s (map_of params ''to_ref'') of
                  None \<Rightarrow> False
                | Some t \<Rightarrow> node_kind f \<in> set (ed_from d) \<and> node_kind t \<in> set (ed_to d))))"

definition new_edge :: "environment \<Rightarrow> (string \<times> json) list \<Rightarrow> string \<Rightarrow> edge" where
  "new_edge env params intentId =
     \<lparr>edge_from = string_param params ''from_ref'',
      edge_kind = string_param params ''edge_kind'',
      edge_to = string_param params ''to_ref'',
      edge_attrs = map_of params ''attrs'',
      edge_metadata = Some (user_metadata (env_handler_now env) intentId)\<rparr>"

definition connected_edges :: "ssot \<Rightarrow> json option \<Rightarrow> edge list" where
  "connected_edges s ref = filter (touches ref) (edges s)"

definition other_edges :: "ssot \<Rightarrow> json option \<Rightarrow> edge list" where
  "other_edges s ref = filter (\<lambda>e. \<not> touches ref e) (edges s)"

definition ex_schema :: effective_schema where
  "ex_schema =
     \<lparr>node_kinds = [''Stakeholder'', ''Need'', ''Requirement''],
      edge_kinds = [''expresses'', ''refinesTo''],
      edge_definitions =
        [''expresses'' \<mapsto> \<lparr>ed_from = [''Stakeholder''], ed_to = [''Need'']\<rparr>,
         ''refinesTo'' \<mapsto> \<lparr>ed_from = [''Need''], ed_to = [''Requirement'']\<rparr>]\<rparr>"

definition ex_param :: "string \<Rightarrow> bool \<Rightarrow> parameter_definition" where
  "ex_param t r = \<lparr>pd_type = t, pd_required = r\<rparr>"

definition ex_edge_parameters :: "(string \<times> parameter_definition) list" where
  "ex_edge_parameters =
     [(''from_ref'', ex_param ''NodeRef'' True),
      (''edge_kind'', ex_param ''EdgeKind'' True),
      (''to_ref'', ex_param ''NodeRef'' True)]"

definition ex_catalog :: intent_catalog where
  "ex_catalog =
     \<lparr>cat_intents =
        [\<lparr>idef_id = ''I.AddNode'',
          idef_parameters = Some [(''kind'', ex_param ''NodeKind'' True),
                                  (''attrs'', ex_param ''object'' False)]\<rparr>,
         \<lparr>idef_id = ''I.AddEdge'', idef_parameters = Some ex_edge_parameters\<rparr>,
         \<lparr>idef_id = ''I.DeleteEdge'', idef_parameters = Some ex_edge_parameters\<rparr>]\<rparr>"

definition ex_engine :: engine where
  "ex_engine =
     \<lparr>en_ssot = ex_graph, en_schema = ex_schema, en_catalog = ex_catalog,
      en_options = \<lparr>autoSave = True, historyDir = None\<rparr>\<rparr>"

definition ex_env :: environment where
  "ex_env =
     \<lparr>env_uuid = ''7f9c'', env_now = ''2025-01-02T00:00:00.000Z'',
      env_handler_uuid = ''b2d4'', env_handler_now = ''2025-01-02T00:00:00.001Z'',
      env_handler_now2 = ''2025-01-02T00:00:00.002Z'',
      env_save = Some ''EACCES: permission denied'', env_history = None\<rparr>"

definition ex_edge_params :: "string \<Rightarrow> string \<Rightarrow> string \<Rightarrow> (string \<times> json) list" where
  "ex_edge_params a k b = [(''from_ref'', JStr a), (''edge_kind'', JStr k), (''to_ref'', JStr b)]"

definition ex_add_node :: "string \<Rightarrow> intent" where
  "ex_add_node k =
     \<lparr>in_type = ''I.AddNode'', in_params = Some (JObj [(''kind'', JStr k)]),
      in_metadata = None\<rparr>"

definition ex_bad_edge :: intent where
  "ex_bad_edge =
     \<lparr>in_type = ''I.AddEdge'',
      in_params = Some (JObj [(''edge_kind'', JStr ''blocks''), (''to_ref'', JStr ''zz'')]),
      in_metadata = None\<rparr>"

definition ex_delete_edge :: "json option \<Rightarrow> intent" where
  "ex_delete_edge params = \<lparr>in_type = ''I.DeleteEdge'', in_params = params, in_metadata = None\<rparr>"

text \<open>
  A schema with the node kind \<open>constructor\<close>, and an engine with that schema that
  neither saves nor records history.
\<close>

definition ex_open_schema :: effective_schema where
  "ex_open_schema = ex_schema\<lparr>node_kinds := node_kinds ex_schema @ [''constructor'']\<rparr>"

definition ex_open_engine :: engine where
  "ex_open_engine =
     \<lparr>en_ssot = ex_graph, en_schema = ex_open_schema, en_catalog = ex_catalog,
      en_options = \<lparr>autoSave = False, historyDir = None\<rparr>\<rparr>"

definition ex_delete_params :: "bool \<Rightarrow> (string \<times> json) list" where
  "ex_delete_params c = [(''node_ref'', JStr ''n1''), (''cascade'', JBool c)]"

definition ex_graph3 :: ssot where
  "ex_graph3 = ex_graph\<lparr>edges := edges ex_graph @ [ex_edge ''a1'' ''reviews'' ''r1'']\<rparr>"

text \<open>
  A graph is indexable when no node kind and no edge endpoint names a property of
  \<open>Object.prototype\<close>. \<open>stamped\<close> is the graph with the new \<open>last_updated\<close>, \<open>committed\<close>
  the stamped graph with its new indexes, and \<open>io_error\<close> the error of \<open>save\<close> or
  \<open>recordHistory\<close> when one of them runs and throws.
\<close>

definition indexable :: "ssot \<Rightarrow> bool" where
  "indexable s =
     (list_all (\<lambda>n. \<not> inherited (node_kind n)) (nodes s) \<and>
      list_all (\<lambda>e. \<not> inherited (edge_from e) \<and> \<not> inherited (edge_to e)) (edges s))"

definition stamped :: "environment \<Rightarrow> ssot \<Rightarrow> ssot" where
  "stamped env s1 = s1\<lparr>meta := (meta s1)\<lparr>meta_last_updated := env_now env\<rparr>\<rparr>"

definition committed :: "environment \<Rightarrow> ssot \<Rightarrow> ssot" where
  "committed env s1 = (stamped env s1)\<lparr>indexes := Some (build_indexes (nodes s1) (edges s1))\<rparr>"

definition io_error :: "environment \<Rightarrow> engine_options \<Rightarrow> string option" where
  "io_error env opts =
     (case (if autoSave opts then env_save env else None) of
        Some e \<Rightarrow> Some e
      | None \<Rightarrow> (if history_enabled opts then env_history env else None))"

definition handler_intent_id :: "environment \<Rightarrow> intent \<Rightarrow> string" where
  "handler_intent_id env i =
     (case in_metadata i of None \<Rightarrow> env_uuid env | Some m \<Rightarrow> im_intent_id m)"

section \<open>Properties of the criteria engine\<close>

subsection \<open>The fields of an evaluation\<close>

lemma evaluate_diagnostics:
  "ev_diagnostics (fst (evaluate rt clk rules s)) =
     concat (map (\<lambda>r. fst (evaluateRule rt clk r s)) rules)"
  unfolding evaluate_def Let_def
  by (simp only: fst_conv criteria_evaluation.simps map_map comp_def)

lemma evaluate_log:
  "snd (evaluate rt clk rules s) = concat (map (\<lambda>r. snd (evaluateRule rt clk r s)) rules)"
  unfolding evaluate_def Let_def by (simp only: snd_conv map_map comp_def)

lemma evaluate_total_rules:
  "ev_total_rules (fst (evaluate rt clk rules s)) = int (length rules)"
  unfolding evaluate_def Let_def by (simp only: fst_conv criteria_evaluation.simps)

lemma evaluate_passed:
  "ev_passed (fst (evaluate rt clk rules s)) =
     int (length rules) - int (length (ev_diagnostics (fst (evaluate rt clk rules s))))"
  unfolding evaluate_def Let_def by (simp only: fst_conv criteria_evaluation.simps)

lemma evaluate_warned:
  "ev_warned (fst (evaluate rt clk rules s)) =
     int (length (filter (\<lambda>d. d_severity d = WARN)
                    (ev_diagnostics (fst (evaluate rt clk rules s)))))"
  unfolding evaluate_def Let_def by (simp only: fst_conv criteria_evaluation.simps)

lemma evaluate_failed:
  "ev_failed (fst (evaluate rt clk rules s)) =
     int (length (filter (\<lambda>d. d_severity d = FAIL)
                    (ev_diagnostics (fst (evaluate rt clk rules s)))))"
  unfolding evaluate_def Let_def by (simp only: fst_conv criteria_evaluation.simps)

lemma evaluate_quality_score:
  "sm_quality_score (ev_summary (fst (evaluate rt clk rules s))) =
     calculateQualityScore (int (length rules))
       (ev_failed (fst (evaluate rt clk rules s))) (ev_warned (fst (evaluate rt clk rules s)))"
  unfolding evaluate_def Let_def
  by (simp only: fst_conv criteria_evaluation.simps evaluation_summary.simps)

lemma evaluate_no_rules: "ev_diagnostics (fst (evaluate rt clk [] s)) = []"
  unfolding evaluate_diagnostics by simp

lemma evaluate_failed_nil: "ev_failed (fst (evaluate rt clk [] s)) = 0"
  unfolding evaluate_failed evaluate_no_rules by simp

lemma evaluate_warned_nil: "ev_warned (fst (evaluate rt clk [] s)) = 0"
  unfolding evaluate_warned evaluate_no_rules by simp

lemma evaluateRule_throws:
  "fst (checkRuleCondition rt r s) = Inl e \<Longrightarrow>
     evaluateRule rt clk r s =
       ([], snd (checkRuleCondition rt r s) @
            [LogError (''Failed to evaluate rule '' @ rl_id r @ '':'') e])"
  by (cases "checkRuleCondition rt r s") (simp add: evaluateRule_def)

lemma length_evaluateRule:
  "fst (checkRuleCondition rt r s) = Inr vs \<Longrightarrow>
     length (fst (evaluateRule rt clk r s)) = length vs"
  by (cases "checkRuleCondition rt r s") (simp add: evaluateRule_def)

lemma evaluateRule_nil_iff:
  "fst (checkRuleCondition rt r s) = Inr vs \<Longrightarrow>
     (fst (evaluateRule rt clk r s) = []) = (vs = [])"
  using length_evaluateRule [of rt r s vs clk] by (metis length_0_conv)

lemma ex_graph_nodes:
  "nodes ex_graph =
     [ex_node ''a1'' ''Stakeholder'', ex_node ''n1'' ''Need'', ex_node ''r1'' ''Requirement'']"
  by (simp add: ex_graph_def ex_nodes_def ex_edges_def)

lemma ex_graph_edges:
  "edges ex_graph = [ex_edge ''a1'' ''expresses'' ''n1'', ex_edge ''n1'' ''refinesTo'' ''r1'']"
  by (simp add: ex_graph_def ex_nodes_def ex_edges_def)

subsection \<open>Quality score\<close>

lemma score_of_rules:
  "t \<noteq> 0 \<Longrightarrow> calculateQualityScore t f w = max 0 (min 100 (100 - (f * 10 + w * 2)))"
  unfolding calculateQualityScore_def Let_def by (rule if_not_P)

lemma score_of_nothing:
  "calculateQualityScore 0 0 0 = max 0 (min 100 (100 - (0 * 10 + 0 * 2)))"
  unfolding calculateQualityScore_def Let_def by simp

lemma evaluate_score_formula:
  "sm_quality_score (ev_summary (fst (evaluate rt clk rules s))) =
     max 0 (min 100 (100 - (ev_failed (fst (evaluate rt clk rules s)) * 10
                            + ev_warned (fst (evaluate rt clk rules s)) * 2)))"
proof (cases rules)
  case Nil
  show ?thesis
    unfolding Nil evaluate_quality_score evaluate_failed_nil evaluate_warned_nil
    by (simp only: list.size score_of_nothing of_nat_0)
next
  case (Cons r rs)
  have "int (length (r # rs)) \<noteq> 0" by simp
  then show ?thesis
    unfolding Cons evaluate_quality_score by (rule score_of_rules)
qed

text \<open>
  C5. In every evaluation the quality score is \<open>100 - (failed * 10 + warned * 2)\<close> clamped
  to the range from 0 to 100, where \<open>failed\<close> and \<open>warned\<close> count the diagnostics (not the
  rules) of severity FAIL and WARN; with 10 rules, 1 FAIL diagnostic and 2 WARN
  diagnostics the score is 86.
\<close>

theorem quality_score_formula:
  "sm_quality_score (ev_summary (fst (evaluate rt clk rules s))) =
     max 0 (min 100 (100 - (ev_failed (fst (evaluate rt clk rules s)) * 10
                            + ev_warned (fst (evaluate rt clk rules s)) * 2)))
   \<and> ev_failed (fst (evaluate rt clk rules s)) =
       int (length (filter (\<lambda>d. d_severity d = FAIL)
                      (ev_diagnostics (fst (evaluate rt clk rules s)))))
   \<and> ev_warned (fst (evaluate rt clk rules s)) =
       int (length (filter (\<lambda>d. d_severity d = WARN)
                      (ev_diagnostics (fst (evaluate rt clk rules s)))))
   \<and> calculateQualityScore 10 1 2 = 86"
proof -
  have ex: "calculateQualityScore 10 1 2 = 86"
    unfolding calculateQualityScore_def Let_def by simp
  show ?thesis
    by (intro conjI evaluate_score_formula evaluate_failed evaluate_warned ex)
qed

subsection \<open>Passed count\<close>

lemma ex_no_nodes_check:
  "length (fst (evaluateRule ex_runtime ex_clock ex_no_nodes ex_graph)) = 3"
proof -
  have "\<exists>vs. fst (checkRuleCondition ex_runtime ex_no_nodes ex_graph) = Inr vs \<and> length vs = 3"
    by (simp add: checkRuleCondition_def ex_no_nodes_def ex_rule_def getTargets_def kind_given_def
        ex_graph_nodes Let_def)
  then show ?thesis using length_evaluateRule by metis
qed

lemma ex_need_exists_check:
  "fst (evaluateRule ex_runtime ex_clock ex_need_exists ex_graph) = []"
proof -
  have "fst (checkRuleCondition ex_runtime ex_need_exists ex_graph) = Inr []"
    by (simp add: checkRuleCondition_def ex_need_exists_def ex_rule_def getTargets_def
        kind_given_def kinds_of_def ex_graph_nodes ex_node_def Let_def)
  then show ?thesis using evaluateRule_nil_iff by metis
qed

lemma ex_passed:
  "ev_passed (fst (evaluate ex_runtime ex_clock [ex_no_nodes, ex_need_exists] ex_graph)) = - 1"
proof -
  have "length (ev_diagnostics
          (fst (evaluate ex_runtime ex_clock [ex_no_nodes, ex_need_exists] ex_graph))) = 3"
    unfolding evaluate_diagnostics by (simp add: ex_no_nodes_check ex_need_exists_check)
  then show ?thesis unfolding evaluate_passed by simp
qed

lemma ex_non_violating:
  "length (filter (\<lambda>r. fst (evaluateRule ex_runtime ex_clock r ex_graph) = [])
             [ex_no_nodes, ex_need_exists]) = 1"
proof -
  have "fst (evaluateRule ex_runtime ex_clock ex_no_nodes ex_graph) \<noteq> []"
    using ex_no_nodes_check by auto
  then show ?thesis by (simp add: ex_need_exists_check)
qed

lemma length_concat_int:
  "int (length (concat (map f xs))) = sum_list (map (\<lambda>x. int (length (f x))) xs)"
  by (induction xs) simp_all

lemma evaluate_passed_sum:
  "ev_passed (fst (evaluate rt clk rules s)) =
     int (length rules) -
     sum_list (map (\<lambda>r. int (length (fst (evaluateRule rt clk r s)))) rules)"
  unfolding evaluate_passed evaluate_diagnostics by (simp only: length_concat_int)

lemma evaluate_summary_pass:
  "sm_pass (ev_summary (fst (evaluate rt clk rules s))) = ev_passed (fst (evaluate rt clk rules s))"
  unfolding evaluate_def Let_def
  by (simp only: fst_conv criteria_evaluation.simps evaluation_summary.simps)

lemma passed_le_non_violating:
  "int (length xs) - sum_list (map (\<lambda>x. int (length (f x))) xs) \<le>
     int (length (filter (\<lambda>x. f x = []) xs))"
proof (induction xs)
  case Nil
  show ?case by simp
next
  case (Cons x xs)
  show ?case
  proof (cases "f x = []")
    case True
    with Cons show ?thesis by simp
  next
    case False
    then have "1 \<le> int (length (f x))" by (cases "f x") simp_all
    with Cons False show ?thesis by simp
  qed
qed

lemma evaluate_passed_le:
  "ev_passed (fst (evaluate rt clk rules s)) \<le>
     int (length (filter (\<lambda>r. fst (evaluateRule rt clk r s) = []) rules))"
  unfolding evaluate_passed_sum by (rule passed_le_non_violating)

text \<open>
  C9. An evaluation of the rules \<open>rules\<close> reports \<open>total_rules\<close> as the number of rules and
  \<open>diagnostics\<close> as the diagnostics of the rules, one rule after the other, each
  diagnostic on its own. The passed count, also reported as \<open>PASS\<close> in the summary, is
  the number of rules minus the number of diagnostics, that is minus the sum over the
  rules of the number of diagnostics of each. It is at most the number of rules without
  a diagnostic, and it can be smaller: with the two rules \<open>ex_no_nodes\<close> (three diagnostics
  on the sample graph) and \<open>ex_need_exists\<close> (none) the passed count is -1, while one rule
  is without a diagnostic.
\<close>

theorem passed_is_rules_minus_diagnostics:
  "ev_total_rules (fst (evaluate rt clk rules s)) = int (length rules)
   \<and> ev_diagnostics (fst (evaluate rt clk rules s)) =
       concat (map (\<lambda>r. fst (evaluateRule rt clk r s)) rules)
   \<and> ev_passed (fst (evaluate rt clk rules s)) =
       ev_total_rules (fst (evaluate rt clk rules s)) -
       int (length (ev_diagnostics (fst (evaluate rt clk rules s))))
   \<and> ev_passed (fst (evaluate rt clk rules s)) =
       int (length rules) -
       sum_list (map (\<lambda>r. int (length (fst (evaluateRule rt clk r s)))) rules)
   \<and> sm_pass (ev_summary (fst (evaluate rt clk rules s))) =
       ev_passed (fst (evaluate rt clk rules s))
   \<and> ev_passed (fst (evaluate rt clk rules s)) \<le>
       int (length (filter (\<lambda>r. fst (evaluateRule rt clk r s) = []) rules))
   \<and> ev_passed (fst (evaluate ex_runtime ex_clock [ex_no_nodes, ex_need_exists] ex_graph)) = - 1
   \<and> length (filter (\<lambda>r. fst (evaluateRule ex_runtime ex_clock r ex_graph) = [])
                [ex_no_nodes, ex_need_exists]) = 1"
proof -
  have "ev_passed (fst (evaluate rt clk rules s)) =
     ev_total_rules (fst (evaluate rt clk rules s)) -
     int (length (ev_diagnostics (fst (evaluate rt clk rules s))))"
    unfolding evaluate_total_rules by (rule evaluate_passed)
  then show ?thesis
    by (intro conjI evaluate_total_rules evaluate_diagnostics evaluate_passed_sum
        evaluate_summary_pass evaluate_passed_le ex_passed ex_non_violating)
qed

subsection \<open>Rule isolation\<close>

lemma checkRuleCondition_unrecognized:
  "\<not> recognized (cd_type (rl_condition r)) \<Longrightarrow>
     checkRuleCondition rt r s =
       (Inr [], [LogWarn (''Unknown condition type: '' @ cd_type (rl_condition r))])"
  by (simp add: checkRuleCondition_def recognized_def Let_def)

lemma evaluateRule_unrecognized:
  "\<not> recognized (cd_type (rl_condition r)) \<Longrightarrow>
     evaluateRule rt clk r s =
       ([], [LogWarn (''Unknown condition type: '' @ cd_type (rl_condition r))])"
  by (simp add: evaluateRule_def checkRuleCondition_unrecognized)

lemma checkRuleCondition_throws_log:
  "isl (fst (checkRuleCondition rt r s)) \<Longrightarrow> snd (checkRuleCondition rt r s) = []"
  by (simp add: checkRuleCondition_def Let_def split: if_splits)

lemma evaluate_diagnostics_skip:
  "fst (evaluateRule rt clk r s) = [] \<Longrightarrow>
     ev_diagnostics (fst (evaluate rt clk (rs1 @ r # rs2) s)) =
     ev_diagnostics (fst (evaluate rt clk (rs1 @ rs2) s))"
  unfolding evaluate_diagnostics by simp

lemma evaluate_log_subset:
  "set (snd (evaluateRule rt clk r s)) \<subseteq> set (snd (evaluate rt clk (rs1 @ r # rs2) s))"
  unfolding evaluate_log by auto

lemma faulty_rule:
  assumes "isl (fst (checkRuleCondition rt r s)) \<or> \<not> recognized (cd_type (rl_condition r))"
  shows "evaluateRule rt clk r s =
           ([], case fst (checkRuleCondition rt r s) of
                  Inl e \<Rightarrow> [LogError (''Failed to evaluate rule '' @ rl_id r @ '':'') e]
                | Inr vs \<Rightarrow> [LogWarn (''Unknown condition type: '' @ cd_type (rl_condition r))])"
proof (cases "fst (checkRuleCondition rt r s)")
  case (Inl e)
  then have "isl (fst (checkRuleCondition rt r s))" by simp
  then have "snd (checkRuleCondition rt r s) = []" by (rule checkRuleCondition_throws_log)
  with Inl show ?thesis using evaluateRule_throws [OF Inl, of clk] by simp
next
  case (Inr vs)
  with assms have "\<not> recognized (cd_type (rl_condition r))" by simp
  with Inr show ?thesis by (simp add: evaluateRule_unrecognized)
qed

text \<open>
  C6. A rule whose condition check throws, or whose condition type has no case in
  \<open>checkRuleCondition\<close> (\<open>custom\<close> among them), yields no diagnostic and one log entry
  (the error, or the warning about the unknown type); the log of the evaluation keeps
  the entry, and the diagnostics of the evaluation are those of the other rules, the
  same as if the rule were not in the catalog. \<open>evaluate\<close> returns an evaluation in
  all cases: it has no result that stands for an error.
\<close>

theorem rule_isolation:
  assumes "isl (fst (checkRuleCondition rt r s)) \<or> \<not> recognized (cd_type (rl_condition r))"
  shows "evaluateRule rt clk r s =
           ([], case fst (checkRuleCondition rt r s) of
                  Inl e \<Rightarrow> [LogError (''Failed to evaluate rule '' @ rl_id r @ '':'') e]
                | Inr vs \<Rightarrow> [LogWarn (''Unknown condition type: '' @ cd_type (rl_condition r))])
       \<and> set (snd (evaluateRule rt clk r s)) \<subseteq> set (snd (evaluate rt clk (rs1 @ r # rs2) s))
       \<and> ev_diagnostics (fst (evaluate rt clk (rs1 @ r # rs2) s)) =
           concat (map (\<lambda>x. fst (evaluateRule rt clk x s)) rs1) @
           concat (map (\<lambda>x. fst (evaluateRule rt clk x s)) rs2)
       \<and> ev_diagnostics (fst (evaluate rt clk (rs1 @ r # rs2) s)) =
           ev_diagnostics (fst (evaluate rt clk (rs1 @ rs2) s))
       \<and> \<not> recognized ''custom''"
proof -
  have f: "evaluateRule rt clk r s =
           ([], case fst (checkRuleCondition rt r s) of
                  Inl e \<Rightarrow> [LogError (''Failed to evaluate rule '' @ rl_id r @ '':'') e]
                | Inr vs \<Rightarrow> [LogWarn (''Unknown condition type: '' @ cd_type (rl_condition r))])"
    using assms by (rule faulty_rule)
  have nil: "fst (evaluateRule rt clk r s) = []"
    unfolding f by (rule fst_conv)
  have skip: "ev_diagnostics (fst (evaluate rt clk (rs1 @ r # rs2) s)) =
           ev_diagnostics (fst (evaluate rt clk (rs1 @ rs2) s))"
    using nil by (rule evaluate_diagnostics_skip)
  have cat: "ev_diagnostics (fst (evaluate rt clk (rs1 @ r # rs2) s)) =
           concat (map (\<lambda>x. fst (evaluateRule rt clk x s)) rs1) @
           concat (map (\<lambda>x. fst (evaluateRule rt clk x s)) rs2)"
    unfolding evaluate_diagnostics by (simp add: nil)
  have custom: "\<not> recognized ''custom''"
    by (simp add: recognized_def)
  show ?thesis
    by (intro conjI f evaluate_log_subset cat skip custom)
qed

lemma ex_no_path_throws:
  "fst (checkRuleCondition ex_runtime ex_no_path ex_graph) = Inl split_of_undefined"
  by (simp add: checkRuleCondition_def ex_no_path_def ex_rule_def getTargets_def kind_given_def
        ex_graph_nodes Let_def checkAttributeCondition_def)

lemma ex_custom_unrecognized: "\<not> recognized (cd_type (rl_condition ex_custom))"
  by (simp add: ex_custom_def ex_rule_def recognized_def)

lemma ex_no_path_id: "rl_id ex_no_path = ''R3''"
  by (simp add: ex_no_path_def ex_rule_def)

lemma ex_custom_type: "cd_type (rl_condition ex_custom) = ''custom''"
  by (simp add: ex_custom_def ex_rule_def)

theorem rule_isolation_witness:
  "isl (fst (checkRuleCondition ex_runtime ex_no_path ex_graph))
   \<and> \<not> recognized (cd_type (rl_condition ex_custom))
   \<and> evaluateRule ex_runtime ex_clock ex_no_path ex_graph =
        ([], [LogError ''Failed to evaluate rule R3:'' split_of_undefined])
   \<and> evaluateRule ex_runtime ex_clock ex_custom ex_graph =
        ([], [LogWarn ''Unknown condition type: custom''])
   \<and> ev_diagnostics (fst (evaluate ex_runtime ex_clock [ex_no_path, ex_no_nodes] ex_graph)) =
        ev_diagnostics (fst (evaluate ex_runtime ex_clock [ex_no_nodes] ex_graph))
   \<and> ev_diagnostics (fst (evaluate ex_runtime ex_clock [ex_no_nodes, ex_custom] ex_graph)) =
        ev_diagnostics (fst (evaluate ex_runtime ex_clock [ex_no_nodes] ex_graph))
   \<and> length (ev_diagnostics (fst (evaluate ex_runtime ex_clock [ex_no_nodes] ex_graph))) = 3"
proof -
  have t: "isl (fst (checkRuleCondition ex_runtime ex_no_path ex_graph))"
    by (simp add: ex_no_path_throws)
  have u: "\<not> recognized (cd_type (rl_condition ex_custom))"
    by (rule ex_custom_unrecognized)
  have cu: "fst (checkRuleCondition ex_runtime ex_custom ex_graph) = Inr []"
    by (simp add: checkRuleCondition_unrecognized [OF u])
  have three: "length (ev_diagnostics (fst (evaluate ex_runtime ex_clock [ex_no_nodes] ex_graph))) = 3"
    unfolding evaluate_diagnostics by (simp add: ex_no_nodes_check)
  note A = rule_isolation [of ex_runtime ex_no_path ex_graph ex_clock "[]" "[ex_no_nodes]",
      OF disjI1 [OF t]]
  note B = rule_isolation [of ex_runtime ex_custom ex_graph ex_clock "[ex_no_nodes]" "[]",
      OF disjI2 [OF u]]
  have a1: "evaluateRule ex_runtime ex_clock ex_no_path ex_graph =
        ([], [LogError ''Failed to evaluate rule R3:'' split_of_undefined])"
    using conjunct1 [OF A] by (simp add: ex_no_path_throws ex_no_path_id)
  have b1: "evaluateRule ex_runtime ex_clock ex_custom ex_graph =
        ([], [LogWarn ''Unknown condition type: custom''])"
    using conjunct1 [OF B] by (simp add: cu ex_custom_type)
  have a2: "ev_diagnostics (fst (evaluate ex_runtime ex_clock [ex_no_path, ex_no_nodes] ex_graph)) =
        ev_diagnostics (fst (evaluate ex_runtime ex_clock [ex_no_nodes] ex_graph))"
    using conjunct1 [OF conjunct2 [OF conjunct2 [OF conjunct2 [OF A]]]] by simp
  have b2: "ev_diagnostics (fst (evaluate ex_runtime ex_clock [ex_no_nodes, ex_custom] ex_graph)) =
        ev_diagnostics (fst (evaluate ex_runtime ex_clock [ex_no_nodes] ex_graph))"
    using conjunct1 [OF conjunct2 [OF conjunct2 [OF conjunct2 [OF B]]]] by simp
  show ?thesis
    by (intro conjI t u a1 b1 a2 b2 three)
qed

subsection \<open>Connected conditions\<close>

lemma ex_graph_outgoing_r1: "outgoing_of_kind ex_graph ''r1'' (Some ''verifiedBy'') = []"
  by (simp add: outgoing_of_kind_def ex_graph_def build_indexes_def ex_edges_def push_at_def
      ex_edge_def)

lemma connected_violation_iff:
  "(checkConnectedCondition t c s \<noteq> None) =
     (int (length (outgoing_of_kind s (tn_id t) (cd_edge_kind c))) < min_or_1 (cd_min c))"
  by (simp add: checkConnectedCondition_def Let_def)

lemma ex_min_zero_targets:
  "getTargets (rl_target ex_min_zero) ex_graph =
     [\<lparr>tn_id = ''r1'', tn_kind = ''Requirement'', tn_data = DNode (ex_node ''r1'' ''Requirement'')\<rparr>]"
  by (simp add: ex_min_zero_def ex_rule_def getTargets_def kind_given_def kinds_of_def
      ex_graph_nodes ex_node_def)

lemma show_int_1: "show_int 1 = ''1''"
  by (simp add: show_int_def show_nat.simps digit_char_def)

lemma ex_min_zero_violation:
  "checkConnectedCondition
     \<lparr>tn_id = ''r1'', tn_kind = ''Requirement'', tn_data = DNode (ex_node ''r1'' ''Requirement'')\<rparr>
     (rl_condition ex_min_zero) ex_graph =
   Some \<lparr>v_target_ref = Some ''r1'', v_target_kind = Some ''Requirement'',
         v_evidence_anchors = [''r1''], v_actual_value = Some (JNum 0),
         v_expected_value = Some (JStr ''>=1 verifiedBy edges'')\<rparr>"
  by (simp add: checkConnectedCondition_def Let_def ex_min_zero_def ex_rule_def min_or_1_def
      ex_graph_outgoing_r1 show_int_1 js_string_opt_def)

text \<open>
  C8. What \<open>checkConnectedCondition\<close> does: a target is reported if and only if the
  number of its outgoing edges of the given kind in the index is below the effective
  minimum \<open>condition.min || 1\<close>, which is 1 when \<open>min\<close> is unset and also when \<open>min\<close> is 0.
  The rule \<open>ex_min_zero\<close> has \<open>min\<close> set to 0; on the sample graph it reports the
  requirement, which has no \<open>verifiedBy\<close> edge, and expects at least 1 edge.
\<close>

theorem connected_min_zero_is_one:
  "(checkConnectedCondition t c s \<noteq> None) =
     (int (length (outgoing_of_kind s (tn_id t) (cd_edge_kind c))) < min_or_1 (cd_min c))
   \<and> min_or_1 None = 1 \<and> min_or_1 (Some 0) = 1
   \<and> cd_min (rl_condition ex_min_zero) = Some 0
   \<and> fst (checkRuleCondition ex_runtime ex_min_zero ex_graph) =
       Inr [\<lparr>v_target_ref = Some ''r1'', v_target_kind = Some ''Requirement'',
              v_evidence_anchors = [''r1''], v_actual_value = Some (JNum 0),
              v_expected_value = Some (JStr ''>=1 verifiedBy edges'')\<rparr>]
   \<and> length (fst (evaluateRule ex_runtime ex_clock ex_min_zero ex_graph)) = 1"
proof -
  have m: "cd_min (rl_condition ex_min_zero) = Some 0"
    by (simp add: ex_min_zero_def)
  have ct: "cd_type (rl_condition ex_min_zero) = ''connected''"
    by (simp add: ex_min_zero_def)
  have c: "fst (checkRuleCondition ex_runtime ex_min_zero ex_graph) =
       Inr [\<lparr>v_target_ref = Some ''r1'', v_target_kind = Some ''Requirement'',
              v_evidence_anchors = [''r1''], v_actual_value = Some (JNum 0),
              v_expected_value = Some (JStr ''>=1 verifiedBy edges'')\<rparr>]"
    by (simp add: checkRuleCondition_def Let_def ct ex_min_zero_targets ex_min_zero_violation)
  have l: "length (fst (evaluateRule ex_runtime ex_clock ex_min_zero ex_graph)) = 1"
    using length_evaluateRule [OF c] by simp
  have d: "min_or_1 None = 1" "min_or_1 (Some 0) = 1"
    by (simp_all add: min_or_1_def)
  show ?thesis
    by (intro conjI connected_violation_iff d m c l)
qed

subsection \<open>Rules on the graph and on attributes\<close>

lemma getTargets_graph:
  "tg_type tg = TGraph \<or> tg_type tg = TAttribute \<Longrightarrow> getTargets tg s = []"
  by (auto simp add: getTargets_def)

lemma exists_on_no_targets:
  "getTargets (rl_target r) s = [] \<Longrightarrow> cd_type (rl_condition r) = ''exists'' \<Longrightarrow>
     checkRuleCondition rt r s =
       (Inr [\<lparr>v_target_ref = None, v_target_kind = target_kind_text (tg_kind (rl_target r)),
               v_evidence_anchors = [], v_actual_value = Some (JNum 0),
               v_expected_value = Some (JStr ''at least 1'')\<rparr>], [])"
  by (simp add: checkRuleCondition_def Let_def)

lemma not_exists_on_no_targets:
  "getTargets (rl_target r) s = [] \<Longrightarrow> cd_type (rl_condition r) = ''not_exists'' \<Longrightarrow>
     checkRuleCondition rt r s = (Inr [], [])"
  by (simp add: checkRuleCondition_def Let_def)

lemma count_on_no_targets:
  "getTargets (rl_target r) s = [] \<Longrightarrow> cd_type (rl_condition r) = ''count'' \<Longrightarrow>
     checkRuleCondition rt r s =
       (Inr (if count_out_of_bounds 0 (cd_min (rl_condition r)) (cd_max (rl_condition r))
             then [\<lparr>v_target_ref = None, v_target_kind = target_kind_text (tg_kind (rl_target r)),
                     v_evidence_anchors = [], v_actual_value = Some (JNum 0),
                     v_expected_value =
                       Some (JStr (count_expected (cd_min (rl_condition r))
                                     (cd_max (rl_condition r))))\<rparr>]
             else []), [])"
  by (simp add: checkRuleCondition_def Let_def)

lemma evaluateRule_returns:
  "checkRuleCondition rt r s = (Inr vs, lg) \<Longrightarrow>
     evaluateRule rt clk r s = (map (make_diagnostic rt clk r) (enumerate 0 vs), lg)"
  by (simp add: evaluateRule_def)

text \<open>
  C10. For a rule whose target type is \<open>graph\<close> or \<open>attribute\<close> the target set is empty
  whatever the graph holds. An \<open>exists\<close> condition then yields exactly one diagnostic,
  a \<open>not_exists\<close> condition none, and a \<open>count\<close> condition compares the count 0 with
  its bounds.
\<close>

theorem graph_and_attribute_targets:
  assumes "tg_type (rl_target r) = TGraph \<or> tg_type (rl_target r) = TAttribute"
  shows "getTargets (rl_target r) s = []
    \<and> (cd_type (rl_condition r) = ''exists'' \<longrightarrow>
         fst (evaluateRule rt clk r s) =
           [make_diagnostic rt clk r
              (0, \<lparr>v_target_ref = None, v_target_kind = target_kind_text (tg_kind (rl_target r)),
                   v_evidence_anchors = [], v_actual_value = Some (JNum 0),
                   v_expected_value = Some (JStr ''at least 1'')\<rparr>)])
    \<and> (cd_type (rl_condition r) = ''not_exists'' \<longrightarrow> fst (evaluateRule rt clk r s) = [])
    \<and> (cd_type (rl_condition r) = ''count'' \<longrightarrow>
         fst (checkRuleCondition rt r s) =
           Inr (if count_out_of_bounds 0 (cd_min (rl_condition r)) (cd_max (rl_condition r))
                then [\<lparr>v_target_ref = None,
                        v_target_kind = target_kind_text (tg_kind (rl_target r)),
                        v_evidence_anchors = [], v_actual_value = Some (JNum 0),
                        v_expected_value =
                          Some (JStr (count_expected (cd_min (rl_condition r))
                                        (cd_max (rl_condition r))))\<rparr>]
                else []))"
proof -
  have t: "getTargets (rl_target r) s = []"
    using assms by (rule getTargets_graph)
  have e: "cd_type (rl_condition r) = ''exists'' \<longrightarrow>
         fst (evaluateRule rt clk r s) =
           [make_diagnostic rt clk r
              (0, \<lparr>v_target_ref = None, v_target_kind = target_kind_text (tg_kind (rl_target r)),
                   v_evidence_anchors = [], v_actual_value = Some (JNum 0),
                   v_expected_value = Some (JStr ''at least 1'')\<rparr>)]"
    using evaluateRule_returns [OF exists_on_no_targets [OF t], of rt clk] by simp
  have n: "cd_type (rl_condition r) = ''not_exists'' \<longrightarrow> fst (evaluateRule rt clk r s) = []"
    using evaluateRule_returns [OF not_exists_on_no_targets [OF t], of rt clk] by simp
  have c: "cd_type (rl_condition r) = ''count'' \<longrightarrow>
         fst (checkRuleCondition rt r s) =
           Inr (if count_out_of_bounds 0 (cd_min (rl_condition r)) (cd_max (rl_condition r))
                then [\<lparr>v_target_ref = None,
                        v_target_kind = target_kind_text (tg_kind (rl_target r)),
                        v_evidence_anchors = [], v_actual_value = Some (JNum 0),
                        v_expected_value =
                          Some (JStr (count_expected (cd_min (rl_condition r))
                                        (cd_max (rl_condition r))))\<rparr>]
                else [])"
    using count_on_no_targets [OF t, of rt] by simp
  show ?thesis by (intro conjI t e n c)
qed

lemma ex_graph_rule_target: "tg_type (rl_target (ex_graph_rule ct)) = TGraph"
  by (simp add: ex_graph_rule_def ex_rule_def)

lemma ex_graph_rule_type: "cd_type (rl_condition (ex_graph_rule ct)) = ct"
  by (simp add: ex_graph_rule_def)

lemma ex_graph_rule_bounds:
  "cd_min (rl_condition (ex_graph_rule ct)) = Some 1" "cd_max (rl_condition (ex_graph_rule ct)) = None"
  by (simp_all add: ex_graph_rule_def)

theorem graph_and_attribute_targets_witness:
  "tg_type (rl_target (ex_graph_rule ''exists'')) = TGraph
   \<and> nodes ex_graph \<noteq> []
   \<and> getTargets (rl_target (ex_graph_rule ''exists'')) ex_graph = []
   \<and> length (fst (evaluateRule ex_runtime ex_clock (ex_graph_rule ''exists'') ex_graph)) = 1
   \<and> fst (evaluateRule ex_runtime ex_clock (ex_graph_rule ''not_exists'') ex_graph) = []
   \<and> map v_actual_value
       (projr (fst (checkRuleCondition ex_runtime (ex_graph_rule ''count'') ex_graph))) =
       [Some (JNum 0)]"
proof -
  note A = graph_and_attribute_targets [of "ex_graph_rule ''exists''" ex_graph ex_runtime ex_clock,
      OF disjI1 [OF ex_graph_rule_target]]
  note B = graph_and_attribute_targets [of "ex_graph_rule ''not_exists''" ex_graph ex_runtime ex_clock,
      OF disjI1 [OF ex_graph_rule_target]]
  note C = graph_and_attribute_targets [of "ex_graph_rule ''count''" ex_graph ex_runtime ex_clock,
      OF disjI1 [OF ex_graph_rule_target]]
  have n: "nodes ex_graph \<noteq> []" by (simp add: ex_graph_nodes)
  have a1: "getTargets (rl_target (ex_graph_rule ''exists'')) ex_graph = []"
    using conjunct1 [OF A] .
  have a2: "length (fst (evaluateRule ex_runtime ex_clock (ex_graph_rule ''exists'') ex_graph)) = 1"
    using conjunct1 [OF conjunct2 [OF A]] by (simp add: ex_graph_rule_type)
  have b: "fst (evaluateRule ex_runtime ex_clock (ex_graph_rule ''not_exists'') ex_graph) = []"
    using conjunct1 [OF conjunct2 [OF conjunct2 [OF B]]] by (simp add: ex_graph_rule_type)
  have c: "map v_actual_value
       (projr (fst (checkRuleCondition ex_runtime (ex_graph_rule ''count'') ex_graph))) =
       [Some (JNum 0)]"
    using conjunct2 [OF conjunct2 [OF conjunct2 [OF C]]]
    by (simp add: ex_graph_rule_type ex_graph_rule_bounds count_out_of_bounds_def)
  show ?thesis by (intro conjI ex_graph_rule_target n a1 a2 b c)
qed

subsection \<open>A sample evaluation with ten rules\<close>

lemma severity_evaluateRule:
  "map d_severity (fst (evaluateRule rt clk r s)) =
     replicate (length (fst (evaluateRule rt clk r s))) (rl_severity r)"
  by (cases "checkRuleCondition rt r s"; cases "fst (checkRuleCondition rt r s)")
     (auto simp add: evaluateRule_def make_diagnostic_def map_replicate_const comp_def)

lemma count_severity:
  "length (filter (\<lambda>d. d_severity d = v) ds) = length (filter (\<lambda>x. x = v) (map d_severity ds))"
  by (induction ds) auto

lemma ex_q1: "length (fst (evaluateRule ex_runtime ex_clock (ex_rule ''Q1'' FAIL TGraph None ''exists'') ex_graph)) = 1"
proof -
  have "fst (checkRuleCondition ex_runtime (ex_rule ''Q1'' FAIL TGraph None ''exists'') ex_graph) =
          Inr [\<lparr>v_target_ref = None, v_target_kind = None, v_evidence_anchors = [],
                 v_actual_value = Some (JNum 0), v_expected_value = Some (JStr ''at least 1'')\<rparr>]"
    by (simp add: checkRuleCondition_def ex_rule_def getTargets_def Let_def target_kind_text_def)
  from length_evaluateRule [OF this] show ?thesis by simp
qed

lemma ex_q2: "length (fst (evaluateRule ex_runtime ex_clock
    (ex_rule ''Q2'' WARN TNode (Some (Kind ''Need'')) ''not_exists'') ex_graph)) = 1"
proof -
  have "\<exists>vs. fst (checkRuleCondition ex_runtime
          (ex_rule ''Q2'' WARN TNode (Some (Kind ''Need'')) ''not_exists'') ex_graph) = Inr vs \<and>
          length vs = 1"
    by (simp add: checkRuleCondition_def ex_rule_def getTargets_def Let_def kind_given_def
        kinds_of_def ex_graph_nodes ex_node_def)
  then show ?thesis using length_evaluateRule by metis
qed

lemma ex_q3: "length (fst (evaluateRule ex_runtime ex_clock
    (ex_rule ''Q3'' WARN TNode (Some (Kind ''Requirement'')) ''not_exists'') ex_graph)) = 1"
proof -
  have "\<exists>vs. fst (checkRuleCondition ex_runtime
          (ex_rule ''Q3'' WARN TNode (Some (Kind ''Requirement'')) ''not_exists'') ex_graph) = Inr vs \<and>
          length vs = 1"
    by (simp add: checkRuleCondition_def ex_rule_def getTargets_def Let_def kind_given_def
        kinds_of_def ex_graph_nodes ex_node_def)
  then show ?thesis using length_evaluateRule by metis
qed

lemma ex_ten_severities:
  "map d_severity (ev_diagnostics (fst (evaluate ex_runtime ex_clock ex_ten_rules ex_graph))) =
     [FAIL, WARN, WARN]"
proof -
  have s: "rl_severity (ex_rule i v tt k ct) = v" for i v tt k ct
    by (simp add: ex_rule_def)
  have seven: "replicate 7 x = [x, x, x, x, x, x, x]" for x :: criteria_rule
    by (simp add: numeral_eq_Suc)
  show ?thesis
    unfolding evaluate_diagnostics ex_ten_rules_def seven
    by (simp add: map_concat severity_evaluateRule ex_q1 ex_q2 ex_q3 ex_need_exists_check s
        del: replicate.simps) (simp add: numeral_eq_Suc)
qed

theorem quality_score_formula_witness:
  "ev_total_rules (fst (evaluate ex_runtime ex_clock ex_ten_rules ex_graph)) = 10
   \<and> ev_failed (fst (evaluate ex_runtime ex_clock ex_ten_rules ex_graph)) = 1
   \<and> ev_warned (fst (evaluate ex_runtime ex_clock ex_ten_rules ex_graph)) = 2
   \<and> sm_quality_score (ev_summary (fst (evaluate ex_runtime ex_clock ex_ten_rules ex_graph))) = 86"
proof -
  note A = quality_score_formula [of ex_runtime ex_clock ex_ten_rules ex_graph]
  have t: "ev_total_rules (fst (evaluate ex_runtime ex_clock ex_ten_rules ex_graph)) = 10"
    unfolding evaluate_total_rules by (simp add: ex_ten_rules_def)
  have f: "ev_failed (fst (evaluate ex_runtime ex_clock ex_ten_rules ex_graph)) = 1"
    unfolding conjunct1 [OF conjunct2 [OF A]] count_severity ex_ten_severities by simp
  have w: "ev_warned (fst (evaluate ex_runtime ex_clock ex_ten_rules ex_graph)) = 2"
    unfolding conjunct1 [OF conjunct2 [OF conjunct2 [OF A]]] count_severity ex_ten_severities by simp
  have q: "sm_quality_score (ev_summary (fst (evaluate ex_runtime ex_clock ex_ten_rules ex_graph))) = 86"
    unfolding conjunct1 [OF A] f w by simp
  show ?thesis by (intro conjI t f w q)
qed

section \<open>Properties of the intent engine\<close>

subsection \<open>The result of \<open>execute\<close>\<close>

lemma try_block_frame: "\<exists>s'. snd (try_block rt env st i) = st\<lparr>en_ssot := s'\<rparr>"
proof (cases "executeIntentType rt env (en_schema st) i (en_ssot st)")
  case (Pair res s1)
  show ?thesis
  proof (cases res)
    case (Inl e)
    with Pair show ?thesis by (auto simp add: try_block_def)
  next
    case (Inr changes)
    with Pair show ?thesis
      by (cases "rebuildIndexes (s1\<lparr>meta := (meta s1)\<lparr>meta_last_updated := env_now env\<rparr>\<rparr>)")
         (auto simp add: try_block_def Let_def split: option.splits)
  qed
qed

lemma validateIntent_metadata: "validateIntent st (i\<lparr>in_metadata := m\<rparr>) = validateIntent st i"
  by (simp add: validateIntent_def split: option.splits)

lemma validateIntent_with_metadata: "validateIntent st (with_metadata env st i) = validateIntent st i"
  by (simp add: with_metadata_def validateIntent_metadata split: option.splits)

lemma with_metadata_type: "in_type (with_metadata env st i) = in_type i"
  by (simp add: with_metadata_def split: option.splits)

lemma execute_rejects:
  "validateIntent st i = Inl e \<Longrightarrow> execute rt env st i = (Inl e, st)"
  by (simp add: execute_def Let_def validateIntent_with_metadata)

lemma execute_invalid:
  "validateIntent st i = Inr errs \<Longrightarrow> errs \<noteq> [] \<Longrightarrow>
     execute rt env st i = (Inr (validation_failed env errs), st)"
  by (simp add: execute_def Let_def validateIntent_with_metadata validation_failed_def)

lemma execute_throws:
  assumes "validateIntent st i = Inr []"
      and "fst (try_block rt env st (with_metadata env st i)) = Inl msg"
  shows "execute rt env st i = (Inr (execution_failed env st msg), st)"
proof -
  obtain s' where s': "snd (try_block rt env st (with_metadata env st i)) = st\<lparr>en_ssot := s'\<rparr>"
    using try_block_frame by blast
  have tb: "try_block rt env st (with_metadata env st i) = (Inl msg, st\<lparr>en_ssot := s'\<rparr>)"
    using assms(2) s' by (metis prod.collapse)
  show ?thesis
    by (simp add: execute_def Let_def validateIntent_with_metadata assms(1) tb execution_failed_def)
qed

lemma execute_returns:
  assumes "validateIntent st i = Inr []"
      and "try_block rt env st (with_metadata env st i) = (Inr changes, st')"
  shows "execute rt env st i =
           (Inr \<lparr>res_success = True, res_intent_id = env_uuid env, res_changes = Some changes,
                 res_errors = None, res_rollback = None\<rparr>, st')"
  by (simp add: execute_def Let_def validateIntent_with_metadata assms)

lemma executeIntentType_no_handler:
  "\<not> has_handler (in_type i) \<Longrightarrow>
     executeIntentType rt env sch i s =
       (Inl (''Intent type '' @ quoted (in_type i) @ '' not yet implemented''), s)"
  by (simp add: executeIntentType_def has_handler_def)

lemma try_block_no_handler:
  "\<not> has_handler (in_type i) \<Longrightarrow>
     try_block rt env st i =
       (Inl (''Intent type '' @ quoted (in_type i) @ '' not yet implemented''), st)"
  by (simp add: try_block_def executeIntentType_no_handler)

subsection \<open>Reindexing\<close>

lemma edge_index_error_None:
  "(edge_index_error es = None) =
     list_all (\<lambda>e. \<not> inherited (edge_from e) \<and> \<not> inherited (edge_to e)) es"
  by (induction es) simp_all

lemma rebuildIndexes_indexable:
  "indexable s \<Longrightarrow>
     rebuildIndexes s = Inr (s\<lparr>indexes := Some (build_indexes (nodes s) (edges s))\<rparr>)"
  using edge_index_error_None [of "edges s"]
  by (simp add: rebuildIndexes_def indexable_def list_ex_iff list_all_iff)

lemma rebuildIndexes_not_indexable: "\<not> indexable s \<Longrightarrow> isl (rebuildIndexes s)"
  using edge_index_error_None [of "edges s"]
  by (auto simp add: rebuildIndexes_def indexable_def list_ex_iff list_all_iff
      split: option.splits)

lemma rebuildIndexes_kind:
  "list_ex (\<lambda>n. inherited (node_kind n)) (nodes s) \<Longrightarrow>
     rebuildIndexes s = Inl ''byKind[node.kind].push is not a function''"
  by (simp add: rebuildIndexes_def)

lemma indexable_stamped: "indexable (stamped env s) = indexable s"
  by (simp add: indexable_def stamped_def)

lemma rebuildIndexes_stamped:
  "indexable s \<Longrightarrow> rebuildIndexes (stamped env s) = Inr (committed env s)"
  using rebuildIndexes_indexable [of "stamped env s"]
  by (simp add: indexable_stamped committed_def) (simp add: stamped_def)

lemma nodes_committed: "nodes (committed env s) = nodes s"
  by (simp add: committed_def stamped_def)

lemma edges_committed: "edges (committed env s) = edges s"
  by (simp add: committed_def stamped_def)

lemma try_block_handler_throws:
  "executeIntentType rt env (en_schema st) i (en_ssot st) = (Inl e, s1) \<Longrightarrow>
     try_block rt env st i = (Inl e, st\<lparr>en_ssot := s1\<rparr>)"
  by (simp add: try_block_def)

lemma try_block_reindex_throws:
  "executeIntentType rt env (en_schema st) i (en_ssot st) = (Inr changes, s1) \<Longrightarrow>
   rebuildIndexes (stamped env s1) = Inl e \<Longrightarrow>
     try_block rt env st i = (Inl e, st\<lparr>en_ssot := stamped env s1\<rparr>)"
  by (simp add: try_block_def Let_def stamped_def)

lemma try_block_handler_returns:
  "executeIntentType rt env (en_schema st) i (en_ssot st) = (Inr changes, s1) \<Longrightarrow>
   indexable s1 \<Longrightarrow>
     try_block rt env st i =
       (case io_error env (en_options st) of
          Some e \<Rightarrow> Inl e
        | None \<Rightarrow> Inr changes,
        st\<lparr>en_ssot := committed env s1\<rparr>)"
  using rebuildIndexes_stamped [of s1 env]
  by (simp add: try_block_def Let_def stamped_def io_error_def split: option.splits)

subsection \<open>Rollback\<close>

lemma ex_add_node_valid: "validateIntent ex_engine (ex_add_node ''Need'') = Inr []"
  by (simp add: validateIntent_def ex_engine_def ex_catalog_def ex_add_node_def param_errors_def
      param_value_def value_errors_def ex_param_def absent_def includes_value_def ex_schema_def)

lemma ex_add_constructor_valid:
  "validateIntent ex_open_engine (ex_add_node ''constructor'') = Inr []"
  by (simp add: validateIntent_def ex_open_engine_def ex_catalog_def ex_add_node_def
      param_errors_def param_value_def value_errors_def ex_param_def absent_def
      includes_value_def ex_open_schema_def ex_schema_def)

lemma ex_add_node_handler:
  "executeIntentType ex_runtime ex_env sch (with_metadata ex_env st (ex_add_node k)) ex_graph =
     (Inr [\<lparr>ch_type = ''node_added'', ch_target = ''b2d4'', ch_details = DetailKind k\<rparr>],
      ex_graph\<lparr>nodes := nodes ex_graph @
        [\<lparr>node_id = ''b2d4'', node_kind = k, node_attrs = Some (JObj []),
          node_metadata = Some (user_metadata ''2025-01-02T00:00:00.001Z'' ''7f9c'')\<rparr>]\<rparr>)"
  by (simp add: executeIntentType_def with_metadata_def ex_add_node_def with_intent_id_def
      with_params_def addNode_def ex_env_def string_param_def js_string_opt_def Let_def)

lemma ex_add_node_indexable:
  "indexable (ex_graph\<lparr>nodes := nodes ex_graph @
        [\<lparr>node_id = ''b2d4'', node_kind = ''Need'', node_attrs = Some (JObj []),
          node_metadata = Some (user_metadata ''2025-01-02T00:00:00.001Z'' ''7f9c'')\<rparr>]\<rparr>)"
  by (simp add: indexable_def ex_graph_nodes ex_graph_edges ex_node_def ex_edge_def
      inherited_def inherited_keys_def)

lemma ex_add_node_try:
  "fst (try_block ex_runtime ex_env ex_engine (with_metadata ex_env ex_engine (ex_add_node ''Need''))) =
     Inl ''EACCES: permission denied''"
proof -
  have o: "en_schema ex_engine = ex_schema" "en_ssot ex_engine = ex_graph"
    by (simp_all add: ex_engine_def)
  have io: "io_error ex_env (en_options ex_engine) = Some ''EACCES: permission denied''"
    by (simp add: io_error_def ex_engine_def ex_env_def)
  show ?thesis
    using try_block_handler_returns [of ex_runtime ex_env ex_engine, unfolded o,
        OF ex_add_node_handler ex_add_node_indexable]
    by (simp add: io)
qed

lemma ex_add_node_partial:
  "length (nodes (en_ssot (snd (try_block ex_runtime ex_env ex_engine
      (with_metadata ex_env ex_engine (ex_add_node ''Need'')))))) = 4"
proof -
  have o: "en_schema ex_engine = ex_schema" "en_ssot ex_engine = ex_graph"
    by (simp_all add: ex_engine_def)
  show ?thesis
    using try_block_handler_returns [of ex_runtime ex_env ex_engine, unfolded o,
        OF ex_add_node_handler ex_add_node_indexable]
    by (simp add: nodes_committed ex_graph_nodes)
qed

lemma ex_add_constructor_block:
  "try_block ex_runtime ex_env ex_open_engine
     (with_metadata ex_env ex_open_engine (ex_add_node ''constructor'')) =
     (Inl ''byKind[node.kind].push is not a function'',
      ex_open_engine\<lparr>en_ssot := stamped ex_env (ex_graph\<lparr>nodes := nodes ex_graph @
        [\<lparr>node_id = ''b2d4'', node_kind = ''constructor'', node_attrs = Some (JObj []),
          node_metadata = Some (user_metadata ''2025-01-02T00:00:00.001Z'' ''7f9c'')\<rparr>]\<rparr>)\<rparr>)"
proof -
  have o: "en_schema ex_open_engine = ex_open_schema" "en_ssot ex_open_engine = ex_graph"
    by (simp_all add: ex_open_engine_def)
  have r: "rebuildIndexes (stamped ex_env (ex_graph\<lparr>nodes := nodes ex_graph @
        [\<lparr>node_id = ''b2d4'', node_kind = ''constructor'', node_attrs = Some (JObj []),
          node_metadata = Some (user_metadata ''2025-01-02T00:00:00.001Z'' ''7f9c'')\<rparr>]\<rparr>)) =
        Inl ''byKind[node.kind].push is not a function''"
    by (rule rebuildIndexes_kind) (simp add: stamped_def inherited_def inherited_keys_def)
  show ?thesis
    by (rule try_block_reindex_throws [of ex_runtime ex_env ex_open_engine, unfolded o,
        OF ex_add_node_handler r])
qed

lemma ex_add_constructor_try:
  "fst (try_block ex_runtime ex_env ex_open_engine
     (with_metadata ex_env ex_open_engine (ex_add_node ''constructor''))) =
     Inl ''byKind[node.kind].push is not a function''"
  unfolding ex_add_constructor_block by (rule fst_conv)

lemma ex_add_constructor_partial:
  "length (nodes (en_ssot (snd (try_block ex_runtime ex_env ex_open_engine
      (with_metadata ex_env ex_open_engine (ex_add_node ''constructor'')))))) = 4"
  unfolding ex_add_constructor_block by (simp add: stamped_def ex_graph_nodes)

text \<open>
  C1. When validation has passed and the \<open>try\<close> block of \<open>execute\<close> throws (in the
  handler, in \<open>rebuildIndexes\<close> after the graph was changed and stamped, or in \<open>save\<close> or
  \<open>recordHistory\<close> after it was reindexed too), \<open>execute\<close> returns \<open>success = false\<close> with
  the single error \<open>EXECUTION_FAILED\<close> that carries the thrown message, and the snapshot
  taken before the block under \<open>rollback.original_state_snapshot\<close>; the engine it leaves
  is the engine before the call, so any later call of \<open>execute\<close> behaves as if this one
  had not happened.
\<close>

theorem execute_rolls_back:
  assumes "validateIntent st i = Inr []"
      and "fst (try_block rt env st (with_metadata env st i)) = Inl msg"
  shows "execute rt env st i =
           (Inr \<lparr>res_success = False, res_intent_id = env_uuid env, res_changes = None,
                 res_errors = Some [\<lparr>ve_code = ''EXECUTION_FAILED'', ve_message = msg,
                                     ve_field = None\<rparr>],
                 res_rollback = Some \<lparr>rb_reason = ''Execution error'',
                                       rb_original_state_snapshot = en_ssot st\<rparr>\<rparr>, st)
       \<and> execute rt' env' (snd (execute rt env st i)) i' = execute rt' env' st i'"
proof -
  have e: "execute rt env st i = (Inr (execution_failed env st msg), st)"
    using assms by (rule execute_throws)
  show ?thesis unfolding e by (simp add: execution_failed_def)
qed

theorem execute_rolls_back_witness:
  "validateIntent ex_engine (ex_add_node ''Need'') = Inr []
   \<and> fst (try_block ex_runtime ex_env ex_engine
            (with_metadata ex_env ex_engine (ex_add_node ''Need''))) =
       Inl ''EACCES: permission denied''
   \<and> length (nodes (en_ssot ex_engine)) = 3
   \<and> length (nodes (en_ssot (snd (try_block ex_runtime ex_env ex_engine
        (with_metadata ex_env ex_engine (ex_add_node ''Need'')))))) = 4
   \<and> execute ex_runtime ex_env ex_engine (ex_add_node ''Need'') =
       (Inr \<lparr>res_success = False, res_intent_id = env_uuid ex_env, res_changes = None,
             res_errors = Some [\<lparr>ve_code = ''EXECUTION_FAILED'',
                                 ve_message = ''EACCES: permission denied'', ve_field = None\<rparr>],
             res_rollback = Some \<lparr>rb_reason = ''Execution error'',
                                   rb_original_state_snapshot = en_ssot ex_engine\<rparr>\<rparr>,
        ex_engine)
   \<and> execute ex_runtime ex_env
         (snd (execute ex_runtime ex_env ex_engine (ex_add_node ''Need''))) ex_bad_edge =
       execute ex_runtime ex_env ex_engine ex_bad_edge
   \<and> validateIntent ex_open_engine (ex_add_node ''constructor'') = Inr []
   \<and> fst (try_block ex_runtime ex_env ex_open_engine
            (with_metadata ex_env ex_open_engine (ex_add_node ''constructor''))) =
       Inl ''byKind[node.kind].push is not a function''
   \<and> length (nodes (en_ssot ex_open_engine)) = 3
   \<and> length (nodes (en_ssot (snd (try_block ex_runtime ex_env ex_open_engine
        (with_metadata ex_env ex_open_engine (ex_add_node ''constructor'')))))) = 4
   \<and> execute ex_runtime ex_env ex_open_engine (ex_add_node ''constructor'') =
       (Inr \<lparr>res_success = False, res_intent_id = env_uuid ex_env, res_changes = None,
             res_errors = Some [\<lparr>ve_code = ''EXECUTION_FAILED'',
                                 ve_message = ''byKind[node.kind].push is not a function'',
                                 ve_field = None\<rparr>],
             res_rollback = Some \<lparr>rb_reason = ''Execution error'',
                                   rb_original_state_snapshot = en_ssot ex_open_engine\<rparr>\<rparr>,
        ex_open_engine)"
proof -
  have n: "length (nodes (en_ssot ex_engine)) = 3"
    by (simp add: ex_engine_def ex_graph_nodes)
  have m: "length (nodes (en_ssot ex_open_engine)) = 3"
    by (simp add: ex_open_engine_def ex_graph_nodes)
  note A = execute_rolls_back [OF ex_add_node_valid ex_add_node_try, of ex_runtime ex_env ex_bad_edge]
  note B = execute_rolls_back [OF ex_add_constructor_valid ex_add_constructor_try,
      of ex_runtime ex_env ex_bad_edge]
  show ?thesis
    by (intro conjI ex_add_node_valid ex_add_node_try n ex_add_node_partial
        conjunct1 [OF A] conjunct2 [OF A]
        ex_add_constructor_valid ex_add_constructor_try m ex_add_constructor_partial
        conjunct1 [OF B])
qed

subsection \<open>Validation\<close>

lemma param_value_Inr: "param_value params p = Inr v \<Longrightarrow> v = js_get params p"
  by (auto simp add: param_value_def split: option.splits json.splits)

lemma set_value_errors:
  "set (value_errors st p pd v) =
     {e. (e = missing_parameter p \<and> pd_required pd \<and> absent v) \<or>
         (e = invalid_node_ref p v \<and> pd_type pd = ''NodeRef'' \<and>
            \<not> absent v \<and> \<not> nodeExists (en_ssot st) v) \<or>
         (e = invalid_node_kind p v \<and> pd_type pd = ''NodeKind'' \<and>
            \<not> absent v \<and> \<not> includes_value (node_kinds (en_schema st)) v) \<or>
         (e = invalid_edge_kind p v \<and> pd_type pd = ''EdgeKind'' \<and>
            \<not> absent v \<and> \<not> includes_value (edge_kinds (en_schema st)) v)}"
  by (auto simp add: value_errors_def missing_parameter_def
      invalid_node_ref_def invalid_node_kind_def invalid_edge_kind_def)

lemma set_param_errors:
  "param_errors st params (p, pd) = Inr es \<Longrightarrow> set es = {e. applicable st params p pd e}"
proof -
  assume a: "param_errors st params (p, pd) = Inr es"
  then obtain v where v: "param_value params p = Inr v" and es: "es = value_errors st p pd v"
    by (auto simp add: param_errors_def split: sum.splits)
  have "v = js_get params p" using v by (rule param_value_Inr)
  then show ?thesis
    unfolding es set_value_errors applicable_def by simp
qed

lemma set_collect_errors:
  "collect_errors f xs = Inr es \<Longrightarrow>
     (\<forall>x \<in> set xs. \<exists>e. f x = Inr e) \<and> set es = (\<Union>x \<in> set xs. set (projr (f x)))"
  by (induction xs arbitrary: es) (auto split: sum.splits)

lemma set_validateIntent:
  assumes "validateIntent st i = Inr errs"
  shows "set errs = applicable_errors st i"
proof (cases "find (\<lambda>d. idef_id d = in_type i) (cat_intents (en_catalog st))")
  case None
  then show ?thesis
    using assms by (auto simp add: validateIntent_def applicable_errors_def unknown_intent_def)
next
  case (Some d)
  from assms Some obtain entries where
    en: "idef_parameters d = Some entries" and
    ce: "collect_errors (param_errors st (in_params i)) entries = Inr errs"
    by (auto simp add: validateIntent_def split: option.splits)
  note c = set_collect_errors [OF ce]
  have each: "set (projr (param_errors st (in_params i) (p, pd))) =
                {e. applicable st (in_params i) p pd e}" if "(p, pd) \<in> set entries" for p pd
  proof -
    from c that obtain e where e: "param_errors st (in_params i) (p, pd) = Inr e" by blast
    show ?thesis using set_param_errors [OF e] by (simp add: e)
  qed
  have "set errs = (\<Union>x \<in> set entries. set (projr (param_errors st (in_params i) x)))"
    using c by simp
  also have "\<dots> = {e. \<exists>p pd. (p, pd) \<in> set entries \<and> applicable st (in_params i) p pd e}"
    using each by fastforce
  finally show ?thesis
    using Some en by (simp add: applicable_errors_def declared_parameters_def)
qed

text \<open>
  C2. When validation finds an error, \<open>execute\<close> returns \<open>success = false\<close> with the
  list of validation errors, no change records and no rollback field, and the engine
  (graph, indexes and \<open>meta.last_updated\<close> included) is the one before the call. The
  list holds exactly the applicable errors: \<open>UNKNOWN_INTENT\<close> alone for a type the
  catalog does not have, and otherwise, for each declared parameter, the missing-value
  error and the node-reference, node-kind and edge-kind errors that apply to it.
\<close>

theorem validation_precedes_mutation:
  assumes "validateIntent st i = Inr errs" and "errs \<noteq> []"
  shows "execute rt env st i =
           (Inr \<lparr>res_success = False, res_intent_id = env_uuid env, res_changes = None,
                 res_errors = Some errs, res_rollback = None\<rparr>, st)
       \<and> set errs = applicable_errors st i"
  using execute_invalid [OF assms, of rt env] set_validateIntent [OF assms(1)]
  by (simp add: validation_failed_def)

lemma ex_bad_edge_errors:
  "validateIntent ex_engine ex_bad_edge =
     Inr [missing_parameter ''from_ref'',
          invalid_edge_kind ''edge_kind'' (Some (JStr ''blocks'')),
          invalid_node_ref ''to_ref'' (Some (JStr ''zz''))]"
  by (simp add: validateIntent_def ex_engine_def ex_catalog_def ex_bad_edge_def param_errors_def
      param_value_def value_errors_def
      ex_edge_parameters_def ex_param_def absent_def includes_value_def ex_schema_def
      nodeExists_def ex_graph_nodes ex_node_def
      missing_parameter_def invalid_edge_kind_def invalid_node_ref_def)

theorem validation_precedes_mutation_witness:
  "validateIntent ex_engine ex_bad_edge =
     Inr [missing_parameter ''from_ref'',
          invalid_edge_kind ''edge_kind'' (Some (JStr ''blocks'')),
          invalid_node_ref ''to_ref'' (Some (JStr ''zz''))]
   \<and> [missing_parameter ''from_ref'',
       invalid_edge_kind ''edge_kind'' (Some (JStr ''blocks'')),
       invalid_node_ref ''to_ref'' (Some (JStr ''zz''))] \<noteq> []
   \<and> execute ex_runtime ex_env ex_engine ex_bad_edge =
       (Inr \<lparr>res_success = False, res_intent_id = ''7f9c'', res_changes = None,
             res_errors = Some [missing_parameter ''from_ref'',
                                invalid_edge_kind ''edge_kind'' (Some (JStr ''blocks'')),
                                invalid_node_ref ''to_ref'' (Some (JStr ''zz''))],
             res_rollback = None\<rparr>, ex_engine)
   \<and> applicable_errors ex_engine ex_bad_edge =
       {missing_parameter ''from_ref'',
        invalid_edge_kind ''edge_kind'' (Some (JStr ''blocks'')),
        invalid_node_ref ''to_ref'' (Some (JStr ''zz''))}"
proof -
  have ne: "[missing_parameter ''from_ref'',
       invalid_edge_kind ''edge_kind'' (Some (JStr ''blocks'')),
       invalid_node_ref ''to_ref'' (Some (JStr ''zz''))] \<noteq> []"
    by simp
  have u: "env_uuid ex_env = ''7f9c''" by (simp add: ex_env_def)
  note A = validation_precedes_mutation [OF ex_bad_edge_errors ne, of ex_runtime ex_env]
  have a: "execute ex_runtime ex_env ex_engine ex_bad_edge =
       (Inr \<lparr>res_success = False, res_intent_id = ''7f9c'', res_changes = None,
             res_errors = Some [missing_parameter ''from_ref'',
                                invalid_edge_kind ''edge_kind'' (Some (JStr ''blocks'')),
                                invalid_node_ref ''to_ref'' (Some (JStr ''zz''))],
             res_rollback = None\<rparr>, ex_engine)"
    using conjunct1 [OF A] by (simp add: u)
  have b: "applicable_errors ex_engine ex_bad_edge =
       {missing_parameter ''from_ref'',
        invalid_edge_kind ''edge_kind'' (Some (JStr ''blocks'')),
        invalid_node_ref ''to_ref'' (Some (JStr ''zz''))}"
    using conjunct2 [OF A] by simp
  show ?thesis
    by (intro conjI ex_bad_edge_errors ne a b)
qed

subsection \<open>Adding an edge\<close>

lemma findNode_Some_param:
  "findNode s v = Some n \<Longrightarrow> v = Some (JStr (node_id n))"
  unfolding findNode_def by (metis (mono_tags, lifting) find_Some_iff)

lemma findNode_string_param:
  "findNode s (map_of params name) = Some n \<Longrightarrow> string_param params name = node_id n"
  by (drule findNode_Some_param) (simp add: string_param_def js_string_opt_def)

lemma findNode_nodeExists: "(findNode s v \<noteq> None) = nodeExists s v"
  unfolding findNode_def nodeExists_def by (induction "nodes s") (auto simp add: find_None_iff list_ex_iff)

lemma addEdge_refused:
  "\<not> edge_permitted sch s params \<Longrightarrow>
     isl (fst (addEdge sch env params intentId s)) \<and> snd (addEdge sch env params intentId s) = s
     \<and> projl (fst (addEdge sch env params intentId s)) \<noteq> []"
  by (cases "edge_definitions sch (string_param params ''edge_kind'')";
      cases "findNode s (map_of params ''from_ref'')";
      cases "findNode s (map_of params ''to_ref'')";
      simp add: addEdge_def edge_permitted_def quoted_def)

lemma addEdge_permitted:
  "edge_permitted sch s params \<Longrightarrow>
     addEdge sch env params intentId s =
       (Inr [\<lparr>ch_type = ''edge_added'',
               ch_target = string_param params ''from_ref'' @ ''->'' @
                           string_param params ''edge_kind'' @ ''->'' @
                           string_param params ''to_ref'',
               ch_details = DetailKind (string_param params ''edge_kind'')\<rparr>],
        s\<lparr>edges := edges s @ [new_edge env params intentId]\<rparr>)"
  by (cases "edge_definitions sch (string_param params ''edge_kind'')";
      cases "findNode s (map_of params ''from_ref'')";
      cases "findNode s (map_of params ''to_ref'')";
      simp add: addEdge_def edge_permitted_def new_edge_def Let_def)

lemma edge_permitted_iff:
  "edge_permitted sch s params =
     (\<exists>d f t. edge_definitions sch (string_param params ''edge_kind'') = Some d \<and>
              findNode s (map_of params ''from_ref'') = Some f \<and>
              findNode s (map_of params ''to_ref'') = Some t \<and>
              node_kind f \<in> set (ed_from d) \<and> node_kind t \<in> set (ed_to d))"
  by (cases "edge_definitions sch (string_param params ''edge_kind'')";
      cases "findNode s (map_of params ''from_ref'')";
      cases "findNode s (map_of params ''to_ref'')";
      simp add: edge_permitted_def)

lemma edge_permitted_endpoints:
  assumes "edge_permitted sch s params"
  shows "map_of params ''from_ref'' = Some (JStr (edge_from (new_edge env params intentId))) \<and>
     map_of params ''to_ref'' = Some (JStr (edge_to (new_edge env params intentId)))"
proof -
  from assms obtain d f t where
    f: "findNode s (map_of params ''from_ref'') = Some f" and
    t: "findNode s (map_of params ''to_ref'') = Some t"
    unfolding edge_permitted_iff by blast
  show ?thesis
    using findNode_Some_param [OF f] findNode_Some_param [OF t]
      findNode_string_param [OF f] findNode_string_param [OF t]
    by (simp add: new_edge_def)
qed

lemma addEdge_messages:
  "(edge_definitions sch (string_param params ''edge_kind'') = None \<longrightarrow>
      fst (addEdge sch env params intentId s) =
        Inl (''Edge kind '' @ quoted (string_param params ''edge_kind'') @ '' not found in schema''))
   \<and> (edge_definitions sch (string_param params ''edge_kind'') \<noteq> None \<and>
       (findNode s (map_of params ''from_ref'') = None \<or>
        findNode s (map_of params ''to_ref'') = None) \<longrightarrow>
      fst (addEdge sch env params intentId s) = Inl ''Source or target node not found'')
   \<and> (\<forall>d f t. edge_definitions sch (string_param params ''edge_kind'') = Some d \<and>
         findNode s (map_of params ''from_ref'') = Some f \<and>
         findNode s (map_of params ''to_ref'') = Some t \<and>
         node_kind f \<notin> set (ed_from d) \<longrightarrow>
      fst (addEdge sch env params intentId s) =
        Inl (''Edge '' @ quoted (string_param params ''edge_kind'') @ '' cannot start from '' @
             quoted (node_kind f)))
   \<and> (\<forall>d f t. edge_definitions sch (string_param params ''edge_kind'') = Some d \<and>
         findNode s (map_of params ''from_ref'') = Some f \<and>
         findNode s (map_of params ''to_ref'') = Some t \<and>
         node_kind f \<in> set (ed_from d) \<and> node_kind t \<notin> set (ed_to d) \<longrightarrow>
      fst (addEdge sch env params intentId s) =
        Inl (''Edge '' @ quoted (string_param params ''edge_kind'') @ '' cannot go to '' @
             quoted (node_kind t)))"
  by (cases "edge_definitions sch (string_param params ''edge_kind'')";
      cases "findNode s (map_of params ''from_ref'')";
      cases "findNode s (map_of params ''to_ref'')";
      simp add: addEdge_def)

text \<open>
  C3. \<open>addEdge\<close> is permitted when the edge kind has a definition in the schema, both
  endpoints are nodes of the graph, the kind of the source is in the definition's
  \<open>from\<close> list and the kind of the target in its \<open>to\<close> list. When it is not
  permitted, \<open>addEdge\<close> throws an error with a message and leaves the graph as it was;
  when it is, it appends exactly one edge with the given source, kind and target and
  returns the single change record \<open>edge_added\<close>. The last four parts give the message
  of each refusal: no definition, a missing endpoint, a source kind and a target kind
  that the definition does not allow.
\<close>

theorem addEdge_endpoint_enforcement:
  "(\<not> edge_permitted sch s params \<longrightarrow>
      isl (fst (addEdge sch env params intentId s)) \<and>
      projl (fst (addEdge sch env params intentId s)) \<noteq> [] \<and>
      snd (addEdge sch env params intentId s) = s)
   \<and> (edge_permitted sch s params \<longrightarrow>
      addEdge sch env params intentId s =
        (Inr [\<lparr>ch_type = ''edge_added'',
                ch_target = string_param params ''from_ref'' @ ''->'' @
                            string_param params ''edge_kind'' @ ''->'' @
                            string_param params ''to_ref'',
                ch_details = DetailKind (string_param params ''edge_kind'')\<rparr>],
         s\<lparr>edges := edges s @ [new_edge env params intentId]\<rparr>) \<and>
      map_of params ''from_ref'' = Some (JStr (edge_from (new_edge env params intentId))) \<and>
      edge_kind (new_edge env params intentId) = string_param params ''edge_kind'' \<and>
      map_of params ''to_ref'' = Some (JStr (edge_to (new_edge env params intentId))))
   \<and> edge_permitted sch s params =
       (\<exists>d f t. edge_definitions sch (string_param params ''edge_kind'') = Some d \<and>
              findNode s (map_of params ''from_ref'') = Some f \<and>
              findNode s (map_of params ''to_ref'') = Some t \<and>
              node_kind f \<in> set (ed_from d) \<and> node_kind t \<in> set (ed_to d))
   \<and> (edge_definitions sch (string_param params ''edge_kind'') = None \<longrightarrow>
      fst (addEdge sch env params intentId s) =
        Inl (''Edge kind '' @ quoted (string_param params ''edge_kind'') @ '' not found in schema''))
   \<and> (edge_definitions sch (string_param params ''edge_kind'') \<noteq> None \<and>
       (findNode s (map_of params ''from_ref'') = None \<or>
        findNode s (map_of params ''to_ref'') = None) \<longrightarrow>
      fst (addEdge sch env params intentId s) = Inl ''Source or target node not found'')
   \<and> (\<forall>d f t. edge_definitions sch (string_param params ''edge_kind'') = Some d \<and>
         findNode s (map_of params ''from_ref'') = Some f \<and>
         findNode s (map_of params ''to_ref'') = Some t \<and>
         node_kind f \<notin> set (ed_from d) \<longrightarrow>
      fst (addEdge sch env params intentId s) =
        Inl (''Edge '' @ quoted (string_param params ''edge_kind'') @ '' cannot start from '' @
             quoted (node_kind f)))
   \<and> (\<forall>d f t. edge_definitions sch (string_param params ''edge_kind'') = Some d \<and>
         findNode s (map_of params ''from_ref'') = Some f \<and>
         findNode s (map_of params ''to_ref'') = Some t \<and>
         node_kind f \<in> set (ed_from d) \<and> node_kind t \<notin> set (ed_to d) \<longrightarrow>
      fst (addEdge sch env params intentId s) =
        Inl (''Edge '' @ quoted (string_param params ''edge_kind'') @ '' cannot go to '' @
             quoted (node_kind t)))"
proof -
  have k: "edge_kind (new_edge env params intentId) = string_param params ''edge_kind''"
    by (simp add: new_edge_def)
  have refused: "\<not> edge_permitted sch s params \<longrightarrow>
      isl (fst (addEdge sch env params intentId s)) \<and>
      projl (fst (addEdge sch env params intentId s)) \<noteq> [] \<and>
      snd (addEdge sch env params intentId s) = s"
    using addEdge_refused [of sch s params env intentId] by blast
  have permitted: "edge_permitted sch s params \<longrightarrow>
      addEdge sch env params intentId s =
        (Inr [\<lparr>ch_type = ''edge_added'',
                ch_target = string_param params ''from_ref'' @ ''->'' @
                            string_param params ''edge_kind'' @ ''->'' @
                            string_param params ''to_ref'',
                ch_details = DetailKind (string_param params ''edge_kind'')\<rparr>],
         s\<lparr>edges := edges s @ [new_edge env params intentId]\<rparr>) \<and>
      map_of params ''from_ref'' = Some (JStr (edge_from (new_edge env params intentId))) \<and>
      edge_kind (new_edge env params intentId) = string_param params ''edge_kind'' \<and>
      map_of params ''to_ref'' = Some (JStr (edge_to (new_edge env params intentId)))"
    using addEdge_permitted [of sch s params env intentId]
      edge_permitted_endpoints [of sch s params env intentId] k
    by blast
  show ?thesis
    by (rule conjI [OF refused conjI [OF permitted conjI [OF edge_permitted_iff addEdge_messages]]])
qed

lemma ex_find_a1: "findNode ex_graph (Some (JStr ''a1'')) = Some (ex_node ''a1'' ''Stakeholder'')"
  by (simp add: findNode_def ex_graph_nodes ex_node_def)

lemma ex_find_n1: "findNode ex_graph (Some (JStr ''n1'')) = Some (ex_node ''n1'' ''Need'')"
  by (simp add: findNode_def ex_graph_nodes ex_node_def)

lemma ex_find_r1: "findNode ex_graph (Some (JStr ''r1'')) = Some (ex_node ''r1'' ''Requirement'')"
  by (simp add: findNode_def ex_graph_nodes ex_node_def)

lemma ex_refinesTo:
  "edge_definitions ex_schema ''refinesTo'' = Some \<lparr>ed_from = [''Need''], ed_to = [''Requirement'']\<rparr>"
  by (simp add: ex_schema_def)

lemma ex_wrong_source: "\<not> edge_permitted ex_schema ex_graph (ex_edge_params ''a1'' ''refinesTo'' ''r1'')"
  by (simp add: edge_permitted_def ex_edge_params_def string_param_def js_string_opt_def
      ex_refinesTo ex_find_a1 ex_find_r1 ex_node_def)

lemma ex_right_source: "edge_permitted ex_schema ex_graph (ex_edge_params ''n1'' ''refinesTo'' ''r1'')"
  by (simp add: edge_permitted_def ex_edge_params_def string_param_def js_string_opt_def
      ex_refinesTo ex_find_n1 ex_find_r1 ex_node_def)

lemma ex_wrong_source_message:
  "fst (addEdge ex_schema ex_env (ex_edge_params ''a1'' ''refinesTo'' ''r1'') ''7f9c'' ex_graph) =
     Inl (''Edge '' @ quoted ''refinesTo'' @ '' cannot start from '' @ quoted ''Stakeholder'')"
  by (simp add: addEdge_def ex_edge_params_def string_param_def js_string_opt_def
      ex_refinesTo ex_find_a1 ex_find_r1 ex_node_def)

theorem addEdge_endpoint_enforcement_witness:
  "\<not> edge_permitted ex_schema ex_graph (ex_edge_params ''a1'' ''refinesTo'' ''r1'')
   \<and> fst (addEdge ex_schema ex_env (ex_edge_params ''a1'' ''refinesTo'' ''r1'') ''7f9c'' ex_graph) =
       Inl (''Edge '' @ quoted ''refinesTo'' @ '' cannot start from '' @ quoted ''Stakeholder'')
   \<and> snd (addEdge ex_schema ex_env (ex_edge_params ''a1'' ''refinesTo'' ''r1'') ''7f9c'' ex_graph) =
       ex_graph
   \<and> edge_permitted ex_schema ex_graph (ex_edge_params ''n1'' ''refinesTo'' ''r1'')
   \<and> edges (snd (addEdge ex_schema ex_env (ex_edge_params ''n1'' ''refinesTo'' ''r1'') ''7f9c''
               ex_graph)) =
       edges ex_graph @
       [\<lparr>edge_from = ''n1'', edge_kind = ''refinesTo'', edge_to = ''r1'', edge_attrs = None,
         edge_metadata = Some (user_metadata ''2025-01-02T00:00:00.001Z'' ''7f9c'')\<rparr>]"
proof -
  note A = addEdge_endpoint_enforcement
    [of ex_schema ex_graph "ex_edge_params ''a1'' ''refinesTo'' ''r1''" ex_env "''7f9c''"]
  note B = addEdge_endpoint_enforcement
    [of ex_schema ex_graph "ex_edge_params ''n1'' ''refinesTo'' ''r1''" ex_env "''7f9c''"]
  have a: "snd (addEdge ex_schema ex_env (ex_edge_params ''a1'' ''refinesTo'' ''r1'') ''7f9c'' ex_graph) =
       ex_graph"
    using conjunct1 [OF A] ex_wrong_source by blast
  have e: "new_edge ex_env (ex_edge_params ''n1'' ''refinesTo'' ''r1'') ''7f9c'' =
       \<lparr>edge_from = ''n1'', edge_kind = ''refinesTo'', edge_to = ''r1'', edge_attrs = None,
         edge_metadata = Some (user_metadata ''2025-01-02T00:00:00.001Z'' ''7f9c'')\<rparr>"
    by (simp add: new_edge_def ex_edge_params_def string_param_def js_string_opt_def ex_env_def)
  have "addEdge ex_schema ex_env (ex_edge_params ''n1'' ''refinesTo'' ''r1'') ''7f9c'' ex_graph =
        (Inr [\<lparr>ch_type = ''edge_added'',
                ch_target = string_param (ex_edge_params ''n1'' ''refinesTo'' ''r1'') ''from_ref'' @ ''->'' @
                            string_param (ex_edge_params ''n1'' ''refinesTo'' ''r1'') ''edge_kind'' @ ''->'' @
                            string_param (ex_edge_params ''n1'' ''refinesTo'' ''r1'') ''to_ref'',
                ch_details = DetailKind (string_param (ex_edge_params ''n1'' ''refinesTo'' ''r1'') ''edge_kind'')\<rparr>],
         ex_graph\<lparr>edges := edges ex_graph @ [new_edge ex_env (ex_edge_params ''n1'' ''refinesTo'' ''r1'') ''7f9c'']\<rparr>)"
    using conjunct1 [OF conjunct2 [OF B]] ex_right_source by blast
  then have b: "edges (snd (addEdge ex_schema ex_env (ex_edge_params ''n1'' ''refinesTo'' ''r1'') ''7f9c''
               ex_graph)) =
       edges ex_graph @
       [\<lparr>edge_from = ''n1'', edge_kind = ''refinesTo'', edge_to = ''r1'', edge_attrs = None,
         edge_metadata = Some (user_metadata ''2025-01-02T00:00:00.001Z'' ''7f9c'')\<rparr>]"
    by (simp add: e)
  show ?thesis
    by (intro conjI ex_wrong_source ex_wrong_source_message a ex_right_source b)
qed

subsection \<open>Deleting a node\<close>

lemma find_index_Some:
  "find_index P xs = Some k \<Longrightarrow> k < length xs \<and> P (xs ! k)"
  by (induction xs arbitrary: k) (auto split: if_splits option.splits)

lemma find_index_None: "(find_index P xs = None) = (\<not> list_ex P xs)"
  by (induction xs) (auto split: option.splits)

lemma nodeExists_find_index:
  "nodeExists s ref \<Longrightarrow>
     \<exists>k. find_index (\<lambda>n. Some (JStr (node_id n)) = ref) (nodes s) = Some k"
  using find_index_None [of "\<lambda>n. Some (JStr (node_id n)) = ref" "nodes s"]
  by (auto simp add: nodeExists_def)

lemma edges_partition:
  "length (other_edges s ref) + length (connected_edges s ref) = length (edges s)"
  unfolding other_edges_def connected_edges_def
  using sum_length_filter_compl [of "touches ref" "edges s"] by simp

lemma deleteNode_blocked:
  assumes "find_index (\<lambda>n. Some (JStr (node_id n)) = map_of params ''node_ref'') (nodes s) = Some k"
      and "0 < length (connected_edges s (map_of params ''node_ref''))"
      and "\<not> truthy (map_of params ''cascade'')"
  shows "deleteNode params intentId s =
     (Inl (''Node '' @ quoted (string_param params ''node_ref'') @ '' has '' @
           show_nat (length (connected_edges s (map_of params ''node_ref''))) @
           '' connected edges. Use cascade=true to delete them.''), s)"
  using assms by (simp add: deleteNode_def Let_def connected_edges_def)

lemma deleteNode_cascading:
  assumes "find_index (\<lambda>n. Some (JStr (node_id n)) = map_of params ''node_ref'') (nodes s) = Some k"
      and "truthy (map_of params ''cascade'')"
  shows "deleteNode params intentId s =
     (Inr [\<lparr>ch_type = ''node_deleted'', ch_target = string_param params ''node_ref'',
             ch_details = DetailDelete (map_of params ''cascade'')
                            (length (connected_edges s (map_of params ''node_ref'')))\<rparr>],
      s\<lparr>nodes := take k (nodes s) @ drop (Suc k) (nodes s),
        edges := other_edges s (map_of params ''node_ref'')\<rparr>)"
  using assms by (simp add: deleteNode_def Let_def connected_edges_def other_edges_def)

text \<open>
  C4. \<open>deleteNode\<close> on a node of the graph that has \<open>n > 0\<close> connected edges (edges
  with the node as source or target): without a truthy \<open>cascade\<close> it throws an error
  whose message reports \<open>n\<close>, and the graph keeps the node and all edges; with
  \<open>cascade\<close> it removes the node (the first one with that id), keeps exactly the edges
  that do not touch it, so that \<open>n\<close> edges are gone, and reports \<open>edges_deleted = n\<close>.
\<close>

theorem deleteNode_cascade:
  assumes "nodeExists s (map_of params ''node_ref'')"
      and "0 < length (connected_edges s (map_of params ''node_ref''))"
  shows "(\<not> truthy (map_of params ''cascade'') \<longrightarrow>
            deleteNode params intentId s =
              (Inl (''Node '' @ quoted (string_param params ''node_ref'') @ '' has '' @
                    show_nat (length (connected_edges s (map_of params ''node_ref''))) @
                    '' connected edges. Use cascade=true to delete them.''), s))
       \<and> (truthy (map_of params ''cascade'') \<longrightarrow>
            (\<exists>k. k < length (nodes s) \<and>
                 Some (JStr (node_id (nodes s ! k))) = map_of params ''node_ref'' \<and>
                 deleteNode params intentId s =
                   (Inr [\<lparr>ch_type = ''node_deleted'',
                           ch_target = string_param params ''node_ref'',
                           ch_details =
                             DetailDelete (map_of params ''cascade'')
                               (length (connected_edges s (map_of params ''node_ref'')))\<rparr>],
                    s\<lparr>nodes := take k (nodes s) @ drop (Suc k) (nodes s),
                      edges := other_edges s (map_of params ''node_ref'')\<rparr>)))
       \<and> other_edges s (map_of params ''node_ref'') =
           filter (\<lambda>e. Some (JStr (edge_from e)) \<noteq> map_of params ''node_ref'' \<and>
                       Some (JStr (edge_to e)) \<noteq> map_of params ''node_ref'') (edges s)
       \<and> length (other_edges s (map_of params ''node_ref'')) +
           length (connected_edges s (map_of params ''node_ref'')) = length (edges s)"
proof -
  obtain k where k: "find_index (\<lambda>n. Some (JStr (node_id n)) = map_of params ''node_ref'') (nodes s) = Some k"
    using nodeExists_find_index [OF assms(1)] by blast
  have o: "other_edges s (map_of params ''node_ref'') =
           filter (\<lambda>e. Some (JStr (edge_from e)) \<noteq> map_of params ''node_ref'' \<and>
                       Some (JStr (edge_to e)) \<noteq> map_of params ''node_ref'') (edges s)"
    by (simp add: other_edges_def touches_def)
  show ?thesis
    using deleteNode_blocked [OF k assms(2), of intentId]
      deleteNode_cascading [OF k, of intentId]
      find_index_Some [OF k] o edges_partition [of s "map_of params ''node_ref''"]
    by blast
qed

lemma ex_graph3_nodes: "nodes ex_graph3 = nodes ex_graph"
  by (simp add: ex_graph3_def)

lemma ex_graph3_edges:
  "edges ex_graph3 = [ex_edge ''a1'' ''expresses'' ''n1'', ex_edge ''n1'' ''refinesTo'' ''r1'',
                      ex_edge ''a1'' ''reviews'' ''r1'']"
  by (simp add: ex_graph3_def ex_graph_edges)

lemma ex_n1_exists: "nodeExists ex_graph3 (map_of (ex_delete_params c) ''node_ref'')"
  by (simp add: nodeExists_def ex_graph3_nodes ex_graph_nodes ex_node_def ex_delete_params_def)

lemma ex_n1_connected:
  "connected_edges ex_graph3 (map_of (ex_delete_params c) ''node_ref'') =
     [ex_edge ''a1'' ''expresses'' ''n1'', ex_edge ''n1'' ''refinesTo'' ''r1'']"
  by (simp add: connected_edges_def ex_graph3_edges ex_delete_params_def touches_def ex_edge_def)

lemma ex_n1_others:
  "other_edges ex_graph3 (map_of (ex_delete_params c) ''node_ref'') = [ex_edge ''a1'' ''reviews'' ''r1'']"
  by (simp add: other_edges_def ex_graph3_edges ex_delete_params_def touches_def ex_edge_def)

lemma show_nat_2: "show_nat (Suc (Suc 0)) = ''2''"
  by (simp add: show_nat.simps digit_char_def)

theorem deleteNode_cascade_witness:
  "nodeExists ex_graph3 (map_of (ex_delete_params False) ''node_ref'')
   \<and> 0 < length (connected_edges ex_graph3 (map_of (ex_delete_params False) ''node_ref''))
   \<and> \<not> truthy (map_of (ex_delete_params False) ''cascade'')
   \<and> deleteNode (ex_delete_params False) ''7f9c'' ex_graph3 =
       (Inl (''Node '' @ quoted ''n1'' @ '' has 2 connected edges. Use cascade=true to delete them.''),
        ex_graph3)
   \<and> truthy (map_of (ex_delete_params True) ''cascade'')
   \<and> fst (deleteNode (ex_delete_params True) ''7f9c'' ex_graph3) =
       Inr [\<lparr>ch_type = ''node_deleted'', ch_target = ''n1'',
              ch_details = DetailDelete (Some (JBool True)) 2\<rparr>]
   \<and> edges (snd (deleteNode (ex_delete_params True) ''7f9c'' ex_graph3)) =
       [ex_edge ''a1'' ''reviews'' ''r1'']
   \<and> length (nodes (snd (deleteNode (ex_delete_params True) ''7f9c'' ex_graph3))) = 2"
proof -
  have c: "0 < length (connected_edges ex_graph3 (map_of (ex_delete_params c) ''node_ref''))" for c
    by (simp add: ex_n1_connected)
  have f: "\<not> truthy (map_of (ex_delete_params False) ''cascade'')"
    by (simp add: ex_delete_params_def)
  have t: "truthy (map_of (ex_delete_params True) ''cascade'')"
    by (simp add: ex_delete_params_def)
  note A = deleteNode_cascade [OF ex_n1_exists c, of False "''7f9c''"]
  note B = deleteNode_cascade [OF ex_n1_exists c, of True "''7f9c''"]
  have sp: "string_param (ex_delete_params c) ''node_ref'' = ''n1''" for c
    by (simp add: string_param_def ex_delete_params_def js_string_opt_def)
  have a: "deleteNode (ex_delete_params False) ''7f9c'' ex_graph3 =
       (Inl (''Node '' @ quoted ''n1'' @ '' has 2 connected edges. Use cascade=true to delete them.''),
        ex_graph3)"
    using conjunct1 [OF A] f by (simp add: sp ex_n1_connected show_nat_2)
  from conjunct1 [OF conjunct2 [OF B]] t obtain k where
    k: "k < length (nodes ex_graph3)" and
    d: "deleteNode (ex_delete_params True) ''7f9c'' ex_graph3 =
          (Inr [\<lparr>ch_type = ''node_deleted'',
                  ch_target = string_param (ex_delete_params True) ''node_ref'',
                  ch_details =
                    DetailDelete (map_of (ex_delete_params True) ''cascade'')
                      (length (connected_edges ex_graph3 (map_of (ex_delete_params True) ''node_ref'')))\<rparr>],
           ex_graph3\<lparr>nodes := take k (nodes ex_graph3) @ drop (Suc k) (nodes ex_graph3),
                     edges := other_edges ex_graph3 (map_of (ex_delete_params True) ''node_ref'')\<rparr>)"
    by blast
  have b1: "fst (deleteNode (ex_delete_params True) ''7f9c'' ex_graph3) =
       Inr [\<lparr>ch_type = ''node_deleted'', ch_target = ''n1'',
              ch_details = DetailDelete (Some (JBool True)) 2\<rparr>]"
    unfolding d by (simp add: sp ex_n1_connected) (simp add: ex_delete_params_def)
  have b2: "edges (snd (deleteNode (ex_delete_params True) ''7f9c'' ex_graph3)) =
       [ex_edge ''a1'' ''reviews'' ''r1'']"
    unfolding d by (simp add: ex_n1_others)
  have b3: "length (nodes (snd (deleteNode (ex_delete_params True) ''7f9c'' ex_graph3))) = 2"
    unfolding d using k by (simp add: ex_graph3_nodes ex_graph_nodes)
  show ?thesis
    by (intro conjI ex_n1_exists c f a t b1 b2 b3)
qed


subsection \<open>Intent types without a handler\<close>

lemma ex_delete_edge_type: "in_type (ex_delete_edge ps) = ''I.DeleteEdge''"
  by (simp add: ex_delete_edge_def)

lemma ex_delete_edge_catalogued: "in_catalog ex_engine (in_type (ex_delete_edge ps))"
  by (simp add: in_catalog_def ex_engine_def ex_catalog_def ex_delete_edge_def)

lemma ex_delete_edge_no_handler: "\<not> has_handler (in_type (ex_delete_edge ps))"
  by (simp add: has_handler_def ex_delete_edge_def)

lemma ex_delete_edge_missing:
  "validateIntent ex_engine (ex_delete_edge (Some (JObj []))) =
     Inr [missing_parameter ''from_ref'', missing_parameter ''edge_kind'',
          missing_parameter ''to_ref'']"
  by (simp add: validateIntent_def ex_engine_def ex_catalog_def ex_delete_edge_def param_errors_def
      param_value_def value_errors_def
      ex_edge_parameters_def ex_param_def absent_def missing_parameter_def)

lemma ex_delete_edge_valid:
  "validateIntent ex_engine
     (ex_delete_edge (Some (JObj (ex_edge_params ''a1'' ''expresses'' ''n1'')))) = Inr []"
  by (simp add: validateIntent_def ex_engine_def ex_catalog_def ex_delete_edge_def param_errors_def
      param_value_def value_errors_def
      ex_edge_parameters_def ex_param_def absent_def includes_value_def ex_schema_def
      nodeExists_def ex_graph_nodes ex_node_def ex_edge_params_def)

text \<open>
  Validation runs before the \<open>try\<close> block. On the parameters \<open>null\<close> it throws when it
  reads the first declared parameter, and the promise of \<open>execute\<close> is rejected.
\<close>

lemma ex_delete_edge_null:
  "execute ex_runtime ex_env ex_engine (ex_delete_edge (Some JNull)) =
     (Inl (read_of_nullish ''null'' ''from_ref''), ex_engine)"
proof -
  have "validateIntent ex_engine (ex_delete_edge (Some JNull)) =
          Inl (read_of_nullish ''null'' ''from_ref'')"
    by (simp add: validateIntent_def ex_engine_def ex_catalog_def ex_delete_edge_def
        param_errors_def param_value_def ex_edge_parameters_def)
  then show ?thesis by (rule execute_rejects)
qed

text \<open>
  C7, as stated, fails: the intent type \<open>I.DeleteEdge\<close> is in the sample catalog and has
  no handler, yet an intent of that type with an empty parameter object is answered by
  validation, with three \<open>MISSING_PARAMETER\<close> errors and no rollback field.
\<close>

theorem unimplemented_intent_counterexample:
  "in_catalog ex_engine (in_type (ex_delete_edge (Some (JObj []))))
   \<and> \<not> has_handler (in_type (ex_delete_edge (Some (JObj []))))
   \<and> execute ex_runtime ex_env ex_engine (ex_delete_edge (Some (JObj []))) =
       (Inr \<lparr>res_success = False, res_intent_id = ''7f9c'', res_changes = None,
             res_errors = Some [missing_parameter ''from_ref'', missing_parameter ''edge_kind'',
                                missing_parameter ''to_ref''],
             res_rollback = None\<rparr>, ex_engine)
   \<and> ve_code (missing_parameter ''from_ref'') = ''MISSING_PARAMETER''"
proof -
  have ne: "[missing_parameter ''from_ref'', missing_parameter ''edge_kind'',
             missing_parameter ''to_ref''] \<noteq> []"
    by simp
  have u: "env_uuid ex_env = ''7f9c''" by (simp add: ex_env_def)
  have e: "execute ex_runtime ex_env ex_engine (ex_delete_edge (Some (JObj []))) =
       (Inr \<lparr>res_success = False, res_intent_id = ''7f9c'', res_changes = None,
             res_errors = Some [missing_parameter ''from_ref'', missing_parameter ''edge_kind'',
                                missing_parameter ''to_ref''],
             res_rollback = None\<rparr>, ex_engine)"
    using execute_invalid [OF ex_delete_edge_missing ne, of ex_runtime ex_env]
    by (simp add: validation_failed_def u)
  have c: "ve_code (missing_parameter ''from_ref'') = ''MISSING_PARAMETER''"
    by (simp add: missing_parameter_def)
  show ?thesis
    by (intro conjI ex_delete_edge_catalogued ex_delete_edge_no_handler e c)
qed

text \<open>
  C7, amended. For an intent whose type is in the catalog and has no handler, when
  validation returns its list of errors: if the list is empty, \<open>execute\<close> returns
  \<open>success = false\<close> with the single error \<open>EXECUTION_FAILED\<close> and the message that the
  intent type is not yet implemented, with the rollback snapshot, and the engine is
  unchanged; if the list is not empty, \<open>execute\<close> returns \<open>success = false\<close> with these
  errors and without a rollback field, and the engine is unchanged.
\<close>

theorem unimplemented_intent_fails:
  assumes "in_catalog st (in_type i)" and "\<not> has_handler (in_type i)"
  shows "(validateIntent st i = Inr [] \<longrightarrow>
            execute rt env st i =
              (Inr \<lparr>res_success = False, res_intent_id = env_uuid env, res_changes = None,
                    res_errors = Some [\<lparr>ve_code = ''EXECUTION_FAILED'',
                                        ve_message = ''Intent type '' @ quoted (in_type i) @
                                                     '' not yet implemented'',
                                        ve_field = None\<rparr>],
                    res_rollback = Some \<lparr>rb_reason = ''Execution error'',
                                          rb_original_state_snapshot = en_ssot st\<rparr>\<rparr>, st))
       \<and> (\<forall>errs. validateIntent st i = Inr errs \<and> errs \<noteq> [] \<longrightarrow>
            execute rt env st i =
              (Inr \<lparr>res_success = False, res_intent_id = env_uuid env, res_changes = None,
                    res_errors = Some errs, res_rollback = None\<rparr>, st))"
proof -
  have h: "\<not> has_handler (in_type (with_metadata env st i))"
    using assms(2) by (simp add: with_metadata_type)
  have "fst (try_block rt env st (with_metadata env st i)) =
          Inl (''Intent type '' @ quoted (in_type i) @ '' not yet implemented'')"
    by (simp add: try_block_no_handler [OF h] with_metadata_type)
  then show ?thesis
    using execute_throws [of st i rt env] execute_invalid [of st i _ rt env]
    unfolding execution_failed_def validation_failed_def by blast
qed

theorem unimplemented_intent_fails_witness:
  "in_catalog ex_engine
     (in_type (ex_delete_edge (Some (JObj (ex_edge_params ''a1'' ''expresses'' ''n1'')))))
   \<and> \<not> has_handler
         (in_type (ex_delete_edge (Some (JObj (ex_edge_params ''a1'' ''expresses'' ''n1'')))))
   \<and> validateIntent ex_engine
       (ex_delete_edge (Some (JObj (ex_edge_params ''a1'' ''expresses'' ''n1'')))) = Inr []
   \<and> execute ex_runtime ex_env ex_engine
       (ex_delete_edge (Some (JObj (ex_edge_params ''a1'' ''expresses'' ''n1'')))) =
       (Inr \<lparr>res_success = False, res_intent_id = ''7f9c'', res_changes = None,
             res_errors = Some [\<lparr>ve_code = ''EXECUTION_FAILED'',
                                 ve_message = ''Intent type '' @ quoted ''I.DeleteEdge'' @
                                              '' not yet implemented'',
                                 ve_field = None\<rparr>],
             res_rollback = Some \<lparr>rb_reason = ''Execution error'',
                                   rb_original_state_snapshot = ex_graph\<rparr>\<rparr>, ex_engine)
   \<and> validateIntent ex_engine (ex_delete_edge (Some (JObj []))) =
       Inr [missing_parameter ''from_ref'', missing_parameter ''edge_kind'',
            missing_parameter ''to_ref'']
   \<and> snd (execute ex_runtime ex_env ex_engine (ex_delete_edge (Some (JObj [])))) = ex_engine
   \<and> map_sum id res_rollback
       (fst (execute ex_runtime ex_env ex_engine (ex_delete_edge (Some (JObj []))))) = Inr None"
proof -
  note A = unimplemented_intent_fails [OF ex_delete_edge_catalogued ex_delete_edge_no_handler,
      of "Some (JObj (ex_edge_params ''a1'' ''expresses'' ''n1''))" ex_runtime ex_env]
  note B = unimplemented_intent_fails [OF ex_delete_edge_catalogued ex_delete_edge_no_handler,
      of "Some (JObj [])" ex_runtime ex_env]
  have o: "env_uuid ex_env = ''7f9c''" "en_ssot ex_engine = ex_graph"
    by (simp_all add: ex_env_def ex_engine_def)
  have a: "execute ex_runtime ex_env ex_engine
       (ex_delete_edge (Some (JObj (ex_edge_params ''a1'' ''expresses'' ''n1'')))) =
       (Inr \<lparr>res_success = False, res_intent_id = ''7f9c'', res_changes = None,
             res_errors = Some [\<lparr>ve_code = ''EXECUTION_FAILED'',
                                 ve_message = ''Intent type '' @ quoted ''I.DeleteEdge'' @
                                              '' not yet implemented'',
                                 ve_field = None\<rparr>],
             res_rollback = Some \<lparr>rb_reason = ''Execution error'',
                                   rb_original_state_snapshot = ex_graph\<rparr>\<rparr>, ex_engine)"
    using conjunct1 [OF A] ex_delete_edge_valid by (simp add: o ex_delete_edge_type)
  have b: "snd (execute ex_runtime ex_env ex_engine (ex_delete_edge (Some (JObj [])))) = ex_engine"
    "map_sum id res_rollback
       (fst (execute ex_runtime ex_env ex_engine (ex_delete_edge (Some (JObj []))))) = Inr None"
    using conjunct2 [OF B] ex_delete_edge_missing by simp_all
  show ?thesis
    by (intro conjI ex_delete_edge_catalogued ex_delete_edge_no_handler ex_delete_edge_valid a
        ex_delete_edge_missing b)
qed

subsection \<open>The handlers under \<open>execute\<close>\<close>

lemma execute_commits:
  assumes "validateIntent st i = Inr []"
      and "executeIntentType rt env (en_schema st) (with_metadata env st i) (en_ssot st) =
             (Inr changes, s1)"
      and "indexable s1"
      and "io_error env (en_options st) = None"
  shows "execute rt env st i =
           (Inr \<lparr>res_success = True, res_intent_id = env_uuid env, res_changes = Some changes,
                 res_errors = None, res_rollback = None\<rparr>,
            st\<lparr>en_ssot := committed env s1\<rparr>)"
  using try_block_handler_returns [OF assms(2) assms(3)] assms(4)
  by (intro execute_returns [OF assms(1)]) simp

lemma execute_handler_throws:
  assumes "validateIntent st i = Inr []"
      and "executeIntentType rt env (en_schema st) (with_metadata env st i) (en_ssot st) =
             (Inl e, s1)"
  shows "execute rt env st i = (Inr (execution_failed env st e), st)"
  using try_block_handler_throws [OF assms(2)]
  by (intro execute_throws [OF assms(1)]) simp

lemma execute_reindex_throws:
  assumes "validateIntent st i = Inr []"
      and "executeIntentType rt env (en_schema st) (with_metadata env st i) (en_ssot st) =
             (Inr changes, s1)"
      and "rebuildIndexes (stamped env s1) = Inl e"
  shows "execute rt env st i = (Inr (execution_failed env st e), st)"
  using try_block_reindex_throws [OF assms(2) assms(3)]
  by (intro execute_throws [OF assms(1)]) simp

lemma with_metadata_params: "in_params (with_metadata env st i) = in_params i"
  by (simp add: with_metadata_def split: option.splits)

lemma with_intent_id_with_metadata:
  "with_intent_id (with_metadata env st i) s handler = handler (handler_intent_id env i) s"
  by (simp add: with_intent_id_def with_metadata_def handler_intent_id_def split: option.splits)

lemma executeIntentType_addEdge:
  "in_type i = ''I.AddEdge'' \<Longrightarrow> in_params i = Some (JObj params) \<Longrightarrow>
     executeIntentType rt env sch (with_metadata env st i) s =
       addEdge sch env params (handler_intent_id env i) s"
  by (simp add: executeIntentType_def with_metadata_type with_metadata_params
      with_intent_id_with_metadata with_params_def)

lemma executeIntentType_deleteNode:
  "in_type i = ''I.DeleteNode'' \<Longrightarrow> in_params i = Some (JObj params) \<Longrightarrow>
     executeIntentType rt env sch (with_metadata env st i) s =
       deleteNode params (handler_intent_id env i) s"
  by (simp add: executeIntentType_def with_metadata_type with_metadata_params
      with_intent_id_with_metadata with_params_def)

lemma execute_addEdge_refused:
  assumes "in_type i = ''I.AddEdge''" and "in_params i = Some (JObj params)"
      and "validateIntent st i = Inr []"
      and "\<not> edge_permitted (en_schema st) (en_ssot st) params"
  shows "execute rt env st i =
           (Inr (execution_failed env st
              (projl (fst (addEdge (en_schema st) env params (handler_intent_id env i)
                             (en_ssot st))))), st)"
proof -
  note r = addEdge_refused [OF assms(4), of env "handler_intent_id env i"]
  have "addEdge (en_schema st) env params (handler_intent_id env i) (en_ssot st) =
      (Inl (projl (fst (addEdge (en_schema st) env params (handler_intent_id env i)
                             (en_ssot st)))), en_ssot st)"
    using r by (metis prod.collapse sum.collapse(1))
  then show ?thesis
    using execute_handler_throws [OF assms(3), of rt env]
      executeIntentType_addEdge [OF assms(1) assms(2)]
    by metis
qed

lemma execute_addEdge_permitted:
  assumes "in_type i = ''I.AddEdge''" and "in_params i = Some (JObj params)"
      and "validateIntent st i = Inr []"
      and "edge_permitted (en_schema st) (en_ssot st) params"
      and "indexable ((en_ssot st)\<lparr>edges := edges (en_ssot st) @
                     [new_edge env params (handler_intent_id env i)]\<rparr>)"
      and "io_error env (en_options st) = None"
  shows "execute rt env st i =
           (Inr \<lparr>res_success = True, res_intent_id = env_uuid env,
                 res_changes = Some
                   [\<lparr>ch_type = ''edge_added'',
                     ch_target = string_param params ''from_ref'' @ ''->'' @
                                 string_param params ''edge_kind'' @ ''->'' @
                                 string_param params ''to_ref'',
                     ch_details = DetailKind (string_param params ''edge_kind'')\<rparr>],
                 res_errors = None, res_rollback = None\<rparr>,
            st\<lparr>en_ssot := committed env
                 ((en_ssot st)\<lparr>edges := edges (en_ssot st) @
                     [new_edge env params (handler_intent_id env i)]\<rparr>)\<rparr>)"
proof -
  have h: "executeIntentType rt env (en_schema st) (with_metadata env st i) (en_ssot st) =
        (Inr [\<lparr>ch_type = ''edge_added'',
                ch_target = string_param params ''from_ref'' @ ''->'' @
                            string_param params ''edge_kind'' @ ''->'' @
                            string_param params ''to_ref'',
                ch_details = DetailKind (string_param params ''edge_kind'')\<rparr>],
         (en_ssot st)\<lparr>edges := edges (en_ssot st) @
                     [new_edge env params (handler_intent_id env i)]\<rparr>)"
    unfolding executeIntentType_addEdge [OF assms(1) assms(2)]
    by (rule addEdge_permitted [OF assms(4)])
  show ?thesis
    by (rule execute_commits [OF assms(3) h assms(5) assms(6)])
qed

lemma execute_deleteNode_blocked:
  assumes "in_type i = ''I.DeleteNode''" and "in_params i = Some (JObj params)"
      and "validateIntent st i = Inr []"
      and "nodeExists (en_ssot st) (map_of params ''node_ref'')"
      and "0 < length (connected_edges (en_ssot st) (map_of params ''node_ref''))"
      and "\<not> truthy (map_of params ''cascade'')"
  shows "execute rt env st i =
           (Inr (execution_failed env st
              (''Node '' @ quoted (string_param params ''node_ref'') @ '' has '' @
               show_nat (length (connected_edges (en_ssot st) (map_of params ''node_ref''))) @
               '' connected edges. Use cascade=true to delete them.'')), st)"
proof -
  obtain k where k: "find_index (\<lambda>n. Some (JStr (node_id n)) = map_of params ''node_ref'')
      (nodes (en_ssot st)) = Some k"
    using nodeExists_find_index [OF assms(4)] by blast
  have h: "executeIntentType rt env (en_schema st) (with_metadata env st i) (en_ssot st) =
     (Inl (''Node '' @ quoted (string_param params ''node_ref'') @ '' has '' @
           show_nat (length (connected_edges (en_ssot st) (map_of params ''node_ref''))) @
           '' connected edges. Use cascade=true to delete them.''), en_ssot st)"
    unfolding executeIntentType_deleteNode [OF assms(1) assms(2)]
    by (rule deleteNode_blocked [OF k assms(5) assms(6)])
  show ?thesis
    by (rule execute_handler_throws [OF assms(3) h])
qed

lemma execute_deleteNode_cascading:
  assumes "in_type i = ''I.DeleteNode''" and "in_params i = Some (JObj params)"
      and "validateIntent st i = Inr []"
      and "find_index (\<lambda>n. Some (JStr (node_id n)) = map_of params ''node_ref'')
             (nodes (en_ssot st)) = Some k"
      and "truthy (map_of params ''cascade'')"
      and "indexable ((en_ssot st)
             \<lparr>nodes := take k (nodes (en_ssot st)) @ drop (Suc k) (nodes (en_ssot st)),
              edges := other_edges (en_ssot st) (map_of params ''node_ref'')\<rparr>)"
      and "io_error env (en_options st) = None"
  shows "execute rt env st i =
           (Inr \<lparr>res_success = True, res_intent_id = env_uuid env,
                 res_changes = Some
                   [\<lparr>ch_type = ''node_deleted'', ch_target = string_param params ''node_ref'',
                     ch_details = DetailDelete (map_of params ''cascade'')
                       (length (connected_edges (en_ssot st) (map_of params ''node_ref'')))\<rparr>],
                 res_errors = None, res_rollback = None\<rparr>,
            st\<lparr>en_ssot := committed env
                 ((en_ssot st)
                    \<lparr>nodes := take k (nodes (en_ssot st)) @ drop (Suc k) (nodes (en_ssot st)),
                     edges := other_edges (en_ssot st) (map_of params ''node_ref'')\<rparr>)\<rparr>)"
proof -
  have h: "executeIntentType rt env (en_schema st) (with_metadata env st i) (en_ssot st) =
     (Inr [\<lparr>ch_type = ''node_deleted'', ch_target = string_param params ''node_ref'',
             ch_details = DetailDelete (map_of params ''cascade'')
                            (length (connected_edges (en_ssot st) (map_of params ''node_ref'')))\<rparr>],
      (en_ssot st)
         \<lparr>nodes := take k (nodes (en_ssot st)) @ drop (Suc k) (nodes (en_ssot st)),
          edges := other_edges (en_ssot st) (map_of params ''node_ref'')\<rparr>)"
    unfolding executeIntentType_deleteNode [OF assms(1) assms(2)]
    by (rule deleteNode_cascading [OF assms(4) assms(5)])
  show ?thesis
    by (rule execute_commits [OF assms(3) h assms(6) assms(7)])
qed

end
